theory Spec2Isabelle
  imports Complex_Main "HOL-Library.AList"
begin

section \<open>JavaScript values\<close>

text \<open>
  The backend (\<^verbatim>\<open>agents.js\<close>, the older Gemini variant of the same module, and
  \<^verbatim>\<open>decision.js\<close>) handles the values that \<^verbatim>\<open>JSON.parse\<close> produces, plus
  \<^verbatim>\<open>undefined\<close> for a property that is not there. A JavaScript string is a sequence of
  16-bit code units, written here as a list of numbers; \<open>str\<close> turns a literal into one.
  A number is an IEEE double: \<^verbatim>\<open>NaN\<close>, one of the two infinities, or a finite double,
  written as the rational number it denotes. Whatever produces a number (\<^verbatim>\<open>JSON.parse\<close>,
  \<^verbatim>\<open>+\<close>, \<^verbatim>\<open>-\<close>, \<^verbatim>\<open>/\<close>) rounds the exact result to the nearest double (section
  \<open>Doubles\<close>). The two zeros are one value: no operation of this code tells them apart.
  Texts that come from a capability are \<open>string\<close>s, that is, their code units are below
  256.
\<close>

type_synonym jsstring = "nat list"

definition str :: "string \<Rightarrow> jsstring" where
  "str s = map of_char s"

datatype jsnum = NaN | PosInf | NegInf | Fin rat

datatype jsval =
    JUndefined
  | JNull
  | JBool bool
  | JNum jsnum
  | JString jsstring
  | JArray "jsval list"
  | JObject "(jsstring \<times> jsval) list"

text \<open>An error object: its constructor and its \<^verbatim>\<open>message\<close>. The wording of the messages
  that the engine itself produces (TypeError, SyntaxError) is the engine's; the model
  carries a representative text for them.\<close>

datatype js_error = Error string | TypeError string | SyntaxError string

fun message :: "js_error \<Rightarrow> string" where
  "message (Error m) = m"
| "message (TypeError m) = m"
| "message (SyntaxError m) = m"

text \<open>The state of a promise. An \<^verbatim>\<open>async\<close> function that returns is \<open>Fulfilled\<close>, one
  that throws is \<open>Rejected\<close>.\<close>

datatype 'a promise = Pending | Fulfilled 'a | Rejected js_error

text \<open>Truthiness, as \<^verbatim>\<open>if (x)\<close>, \<^verbatim>\<open>!x\<close> and \<^verbatim>\<open>x ? a : b\<close> test it.\<close>

fun truthy :: "jsval \<Rightarrow> bool" where
  "truthy JUndefined = False"
| "truthy JNull = False"
| "truthy (JBool b) = b"
| "truthy (JNum n) = (n \<noteq> NaN \<and> n \<noteq> Fin 0)"
| "truthy (JString s) = (s \<noteq> [])"
| "truthy (JArray xs) = True"
| "truthy (JObject kvs) = True"

text \<open>
  Property read \<^verbatim>\<open>v.k\<close>: a TypeError on \<^verbatim>\<open>undefined\<close> and \<^verbatim>\<open>null\<close>, the own property
  of an object, and \<^verbatim>\<open>undefined\<close> otherwise. The names read by the code (\<^verbatim>\<open>hr\<close>,
  \<^verbatim>\<open>score\<close>, \<^verbatim>\<open>final_decision\<close>, ...) are not properties of any prototype, so nothing is
  inherited. \<open>get_opt\<close> is the optional chaining \<^verbatim>\<open>v?.k\<close>.
\<close>

fun get_prop :: "jsval \<Rightarrow> string \<Rightarrow> js_error + jsval" where
  "get_prop JUndefined k = Inl (TypeError (''Cannot read properties of undefined (reading '' @ k @ '')''))"
| "get_prop JNull k = Inl (TypeError (''Cannot read properties of null (reading '' @ k @ '')''))"
| "get_prop (JObject kvs) k = Inr (case map_of kvs (str k) of None \<Rightarrow> JUndefined | Some v \<Rightarrow> v)"
| "get_prop v k = Inr JUndefined"

fun get_opt :: "jsval \<Rightarrow> string \<Rightarrow> jsval" where
  "get_opt (JObject kvs) k = (case map_of kvs (str k) of None \<Rightarrow> JUndefined | Some v \<Rightarrow> v)"
| "get_opt v k = JUndefined"

section \<open>Doubles\<close>

text \<open>
  The value of a decimal literal, a sum, a difference or a quotient is the double
  nearest to the exact result, ties going to the double with an even significand
  (IEEE 754 binary64, round to nearest even). A positive rational \<open>p / q\<close> with
  \<open>2 ^ e \<le> p / q < 2 ^ (e + 1)\<close> is rounded to a multiple of \<open>2 ^ (e - 52)\<close>, or of
  \<open>2 ^ (- 1074)\<close> when it is below the normal range; what reaches \<open>2 ^ 1024\<close> is
  \<^verbatim>\<open>Infinity\<close>.
\<close>

text \<open>The number of binary digits of a positive integer.\<close>

function bit_length :: "int \<Rightarrow> int" where
  "bit_length n = (if n \<le> 0 then 0 else 1 + bit_length (n div 2))"
  by pat_completeness auto
termination
  by (relation "measure nat") auto

declare bit_length.simps [simp del]

text \<open>\<open>b\<close> to the power \<open>k\<close>, for \<open>k \<ge> 0\<close>, by repeated squaring.\<close>

function int_pow :: "int \<Rightarrow> int \<Rightarrow> int" where
  "int_pow b k =
     (if k \<le> 0 then 1
      else (let h = int_pow b (k div 2) in if even k then h * h else b * h * h))"
  by pat_completeness auto
termination
  by (relation "measure (\<lambda>(b, k). nat k)") auto

declare int_pow.simps [simp del]

text \<open>The integer nearest to \<open>p / q\<close>, a tie going to the even one (\<open>q > 0\<close>).\<close>

definition round_half_even :: "int \<Rightarrow> int \<Rightarrow> int" where
  "round_half_even p q =
     (let n = p div q; r = p mod q
      in if 2 * r < q then n
         else if q < 2 * r then n + 1
         else if even n then n else n + 1)"

text \<open>The binary exponent \<open>e\<close> of \<open>p / q\<close>, for \<open>p, q > 0\<close>: \<open>2 ^ e \<le> p / q < 2 ^ (e + 1)\<close>.\<close>

definition exponent_of :: "int \<Rightarrow> int \<Rightarrow> int" where
  "exponent_of p q =
     (let k = bit_length p - bit_length q
      in if (if 0 \<le> k then q * int_pow 2 k \<le> p else q \<le> p * int_pow 2 (- k))
         then k else k - 1)"

text \<open>The double nearest to \<open>p / q\<close>, for \<open>p, q > 0\<close>: the significand \<open>n\<close> is \<open>p / q\<close>
  scaled by \<open>2 ^ s\<close> and rounded to an integer.\<close>

definition round_ratio :: "int \<Rightarrow> int \<Rightarrow> jsnum" where
  "round_ratio p q =
     (let e = exponent_of p q in
      if 1024 \<le> e then PosInf
      else
        (let s = 52 - max e (- 1022);
             n = (if 0 \<le> s then round_half_even (p * int_pow 2 s) q
                  else round_half_even p (q * int_pow 2 (- s)))
         in if e = 1023 \<and> n = int_pow 2 53 then PosInf
            else Fin (if 0 \<le> s then of_int n / of_int (int_pow 2 s)
                      else of_int n * of_int (int_pow 2 (- s)))))"

fun num_neg :: "jsnum \<Rightarrow> jsnum" where
  "num_neg NaN = NaN"
| "num_neg PosInf = NegInf"
| "num_neg NegInf = PosInf"
| "num_neg (Fin x) = Fin (- x)"

text \<open>The double nearest to \<open>p / q\<close>, for any \<open>p\<close> and \<open>q > 0\<close>, and to a rational.\<close>

definition round_fraction :: "int \<Rightarrow> int \<Rightarrow> jsnum" where
  "round_fraction p q =
     (if p = 0 then Fin 0
      else if 0 < p then round_ratio p q
      else num_neg (round_ratio (- p) q))"

definition round_double :: "rat \<Rightarrow> jsnum" where
  "round_double x = (let (p, q) = quotient_of x in round_fraction p q)"

text \<open>Sum, difference, third, absolute value, maximum and \<^verbatim>\<open>a > b\<close> of doubles. \<^verbatim>\<open>NaN\<close> is
  contagious and compares false; the infinities behave as limits.\<close>

fun num_add :: "jsnum \<Rightarrow> jsnum \<Rightarrow> jsnum" where
  "num_add (Fin x) (Fin y) = round_double (x + y)"
| "num_add NaN y = NaN"
| "num_add x NaN = NaN"
| "num_add PosInf NegInf = NaN"
| "num_add NegInf PosInf = NaN"
| "num_add PosInf y = PosInf"
| "num_add NegInf y = NegInf"
| "num_add (Fin x) y = y"

definition num_sub :: "jsnum \<Rightarrow> jsnum \<Rightarrow> jsnum" where
  "num_sub x y = num_add x (num_neg y)"

fun num_div3 :: "jsnum \<Rightarrow> jsnum" where
  "num_div3 (Fin x) = round_double (x / 3)"
| "num_div3 x = x"

fun num_abs :: "jsnum \<Rightarrow> jsnum" where
  "num_abs (Fin x) = Fin \<bar>x\<bar>"
| "num_abs NaN = NaN"
| "num_abs x = PosInf"

fun num_gt :: "jsnum \<Rightarrow> jsnum \<Rightarrow> bool" where
  "num_gt (Fin x) (Fin y) = (x > y)"
| "num_gt NaN y = False"
| "num_gt x NaN = False"
| "num_gt x PosInf = False"
| "num_gt NegInf y = False"
| "num_gt PosInf y = True"
| "num_gt (Fin x) NegInf = True"

definition num_max :: "jsnum \<Rightarrow> jsnum \<Rightarrow> jsnum" where
  "num_max x y = (if x = NaN \<or> y = NaN then NaN else if num_gt y x then y else x)"

section \<open>Conversions\<close>

text \<open>
  Two conversions of the language are parameters of the model: the decimal text of a
  finite number (\<^verbatim>\<open>Number::toString\<close>) and the number a string denotes
  (\<^verbatim>\<open>StringToNumber\<close>). Everything else in the conversions between values, strings
  and numbers is written out. An object converts to \<^verbatim>\<open>[object Object]\<close> and an array
  to its elements joined with commas.
\<close>

record builtins =
  NumberToString :: "rat \<Rightarrow> jsstring"
  StringToNumber :: "jsstring \<Rightarrow> jsnum"

text \<open>
  A conversion to a primitive value, to a string or to a number calls the \<^verbatim>\<open>toString\<close>
  of an object. An object that \<^verbatim>\<open>JSON.parse\<close> made has the one of \<^verbatim>\<open>Object.prototype\<close>,
  unless it has a property of that name of its own: that property holds a JSON value,
  which cannot be called, and the conversion raises a TypeError (\<^verbatim>\<open>valueOf\<close>, own or
  inherited, never gives a primitive value). An array converts each element other than
  \<^verbatim>\<open>null\<close> and \<^verbatim>\<open>undefined\<close>, and raises when one of them does.
\<close>

fun raises :: "jsval \<Rightarrow> bool" where
  "raises (JObject kvs) = (map_of kvs (str ''toString'') \<noteq> None)"
| "raises (JArray xs) = list_ex (\<lambda>x. x \<noteq> JUndefined \<and> x \<noteq> JNull \<and> raises x) xs"
| "raises v = False"

definition conversion_error :: js_error where
  "conversion_error = TypeError ''Cannot convert object to primitive value''"

definition convert_error :: "jsval \<Rightarrow> js_error option" where
  "convert_error v = (if raises v then Some conversion_error else None)"

text \<open>The first error in a sequence of steps, if any.\<close>

fun first_error :: "js_error option list \<Rightarrow> js_error option" where
  "first_error [] = None"
| "first_error (Some e # es) = Some e"
| "first_error (None # es) = first_error es"

text \<open>Writing \<^verbatim>\<open>v.k\<close> into a template literal: the read raises on \<^verbatim>\<open>null\<close> and
  \<^verbatim>\<open>undefined\<close>, the conversion on a value that has no text.\<close>

definition written_error :: "jsval \<Rightarrow> string \<Rightarrow> js_error option" where
  "written_error v k = (case get_prop v k of Inl e \<Rightarrow> Some e | Inr x \<Rightarrow> convert_error x)"

text \<open>The conversions, on the values on which they do not raise.\<close>

fun join :: "jsstring list \<Rightarrow> jsstring" where
  "join [] = []"
| "join [s] = s"
| "join (s # t # ss) = s @ str '','' @ join (t # ss)"

fun ToString :: "builtins \<Rightarrow> jsval \<Rightarrow> jsstring" where
  "ToString B JUndefined = str ''undefined''"
| "ToString B JNull = str ''null''"
| "ToString B (JBool b) = (if b then str ''true'' else str ''false'')"
| "ToString B (JNum NaN) = str ''NaN''"
| "ToString B (JNum PosInf) = str ''Infinity''"
| "ToString B (JNum NegInf) = str ''-Infinity''"
| "ToString B (JNum (Fin r)) = NumberToString B r"
| "ToString B (JString s) = s"
| "ToString B (JArray xs) =
     join (map (\<lambda>x. if x = JUndefined \<or> x = JNull then [] else ToString B x) xs)"
| "ToString B (JObject kvs) = str ''[object Object]''"

fun ToNumber :: "builtins \<Rightarrow> jsval \<Rightarrow> jsnum" where
  "ToNumber B JUndefined = NaN"
| "ToNumber B JNull = Fin 0"
| "ToNumber B (JBool b) = Fin (if b then 1 else 0)"
| "ToNumber B (JNum n) = n"
| "ToNumber B (JString s) = StringToNumber B s"
| "ToNumber B (JArray xs) = StringToNumber B (ToString B (JArray xs))"
| "ToNumber B (JObject kvs) = StringToNumber B (ToString B (JObject kvs))"

text \<open>\<^verbatim>\<open>ToPrimitive\<close>: the primitive value of an object or an array is its string.\<close>

fun ToPrimitive :: "builtins \<Rightarrow> jsval \<Rightarrow> jsval" where
  "ToPrimitive B (JArray xs) = JString (ToString B (JArray xs))"
| "ToPrimitive B (JObject kvs) = JString (ToString B (JObject kvs))"
| "ToPrimitive B v = v"

fun is_string :: "jsval \<Rightarrow> bool" where
  "is_string (JString s) = True"
| "is_string v = False"

text \<open>
  \<^verbatim>\<open>a + b\<close> converts both operands to primitive values, the left one first, and then
  concatenates when either is a string and adds otherwise; \<^verbatim>\<open>a - b\<close> and \<^verbatim>\<open>a / 3\<close>
  convert to numbers. Each operation is its error, if it raises, or its value.
  \<^verbatim>\<open>Math.abs\<close> and \<^verbatim>\<open>Math.max\<close> are applied to numbers only: they are \<open>num_abs\<close> and
  \<open>Math_max\<close>.
\<close>

definition js_plus :: "builtins \<Rightarrow> jsval \<Rightarrow> jsval \<Rightarrow> js_error + jsval" where
  "js_plus B a b =
     (case first_error [convert_error a, convert_error b] of
        Some e \<Rightarrow> Inl e
      | None \<Rightarrow>
          (let p = ToPrimitive B a; q = ToPrimitive B b in
           if is_string p \<or> is_string q then Inr (JString (ToString B p @ ToString B q))
           else Inr (JNum (num_add (ToNumber B p) (ToNumber B q)))))"

definition js_minus :: "builtins \<Rightarrow> jsval \<Rightarrow> jsval \<Rightarrow> js_error + jsnum" where
  "js_minus B a b =
     (case first_error [convert_error a, convert_error b] of
        Some e \<Rightarrow> Inl e
      | None \<Rightarrow> Inr (num_sub (ToNumber B a) (ToNumber B b)))"

definition js_div3 :: "builtins \<Rightarrow> jsval \<Rightarrow> js_error + jsnum" where
  "js_div3 B a =
     (case convert_error a of
        Some e \<Rightarrow> Inl e
      | None \<Rightarrow> Inr (num_div3 (ToNumber B a)))"

definition Math_max :: "jsnum \<Rightarrow> jsnum \<Rightarrow> jsnum \<Rightarrow> jsnum" where
  "Math_max a b c = num_max (num_max a b) c"

text \<open>One step after another, as long as none raises.\<close>

fun and_then :: "js_error + 'a \<Rightarrow> ('a \<Rightarrow> js_error + 'b) \<Rightarrow> js_error + 'b" where
  "and_then (Inl e) f = Inl e"
| "and_then (Inr v) f = f v"

section \<open>The regular expression and \<^verbatim>\<open>JSON.parse\<close>\<close>

text \<open>
  \<^verbatim>\<open>/\{[\s\S]*\}/\<close> matches at the first opening brace that has a closing brace after
  it, and, the star being greedy, runs to the last closing brace of the text. \<open>regex_exec\<close>
  is \<^verbatim>\<open>regex.exec(text)\<close> followed by \<^verbatim>\<open>[0]\<close>; \<open>None\<close> is the \<^verbatim>\<open>null\<close> of no match.
\<close>

definition regex_exec :: "string \<Rightarrow> string option" where
  "regex_exec text =
     (let from_open = dropWhile (\<lambda>c. c \<noteq> CHR ''{'') text;
          to_close = rev (dropWhile (\<lambda>c. c \<noteq> CHR ''}'') (rev from_open))
      in if to_close = [] then None else Some to_close)"

text \<open>\<^verbatim>\<open>String.prototype.trim\<close> on a text of 8-bit code units: the white space and line
  terminators below 256.\<close>

definition is_space :: "char \<Rightarrow> bool" where
  "is_space c = (of_char c \<in> {9, 10, 11, 12, 13, 32, 160 :: nat})"

definition trim :: "string \<Rightarrow> string" where
  "trim s = rev (dropWhile is_space (rev (dropWhile is_space s)))"

subsection \<open>Tokens\<close>

datatype token =
    LBrace | RBrace | LBracket | RBracket | Colon | Comma
  | StringTok jsstring | NumberTok jsnum | TrueTok | FalseTok | NullTok

definition is_ws :: "char \<Rightarrow> bool" where
  "is_ws c = (of_char c \<in> {9, 10, 13, 32 :: nat})"

definition is_digit :: "char \<Rightarrow> bool" where
  "is_digit c = (48 \<le> (of_char c :: nat) \<and> (of_char c :: nat) \<le> 57)"

definition hex_val :: "char \<Rightarrow> nat option" where
  "hex_val c =
     (let n = of_char c :: nat in
      if 48 \<le> n \<and> n \<le> 57 then Some (n - 48)
      else if 65 \<le> n \<and> n \<le> 70 then Some (n - 55)
      else if 97 \<le> n \<and> n \<le> 102 then Some (n - 87)
      else None)"

definition hex4 :: "char \<Rightarrow> char \<Rightarrow> char \<Rightarrow> char \<Rightarrow> nat option" where
  "hex4 a b c d =
     (case (hex_val a, hex_val b, hex_val c, hex_val d) of
        (Some w, Some x, Some y, Some z) \<Rightarrow> Some (((w * 16 + x) * 16 + y) * 16 + z)
      | _ \<Rightarrow> None)"

text \<open>The character after a backslash, other than \<^verbatim>\<open>u\<close>.\<close>

definition simple_escape :: "char \<Rightarrow> nat option" where
  "simple_escape e =
     (if e = CHR 0x22 then Some 34
      else if e = CHR 0x5C then Some 92
      else if e = CHR ''/'' then Some 47
      else if e = CHR ''b'' then Some 8
      else if e = CHR ''f'' then Some 12
      else if e = CHR ''n'' then Some 10
      else if e = CHR ''r'' then Some 13
      else if e = CHR ''t'' then Some 9
      else None)"

text \<open>The rest of a string literal, after its opening quote: the code units of the
  string and the text after the closing quote. A control character must be escaped.\<close>

fun lex_string :: "string \<Rightarrow> jsstring \<Rightarrow> (jsstring \<times> string) option" where
  "lex_string [] acc = None"
| "lex_string (c # cs) acc =
     (if c = CHR 0x22 then Some (acc, cs)
      else if c = CHR 0x5C then
        (case cs of
           [] \<Rightarrow> None
         | e # cs1 \<Rightarrow>
             if e = CHR ''u'' then
               (case cs1 of
                  h1 # h2 # h3 # h4 # cs2 \<Rightarrow>
                    (case hex4 h1 h2 h3 h4 of
                       None \<Rightarrow> None
                     | Some n \<Rightarrow> lex_string cs2 (acc @ [n]))
                | _ \<Rightarrow> None)
             else
               (case simple_escape e of
                  None \<Rightarrow> None
                | Some n \<Rightarrow> lex_string cs1 (acc @ [n])))
      else if (of_char c :: nat) < 32 then None
      else lex_string cs (acc @ [of_char c]))"

text \<open>A number literal: \<^verbatim>\<open>-? (0 | [1-9][0-9]*) (. [0-9]+)? ([eE] [+-]? [0-9]+)?\<close>. Its
  value is the double nearest to the decimal number it writes: the digits before and
  after the point make an integer \<open>m\<close>, and the value is \<open>m\<close> times a power of ten.\<close>

definition digits_val :: "string \<Rightarrow> nat" where
  "digits_val ds = foldl (\<lambda>a c. 10 * a + (of_char c - 48)) 0 ds"

text \<open>The digits after the point, if there is one.\<close>

definition lex_fraction :: "string \<Rightarrow> (string \<times> string) option" where
  "lex_fraction s =
     (case s of
        c # r \<Rightarrow>
          if c = CHR ''.'' then
            (let ds = takeWhile is_digit r in
             if ds = [] then None else Some (ds, dropWhile is_digit r))
          else Some ([], s)
      | [] \<Rightarrow> Some ([], s))"

definition lex_exponent :: "string \<Rightarrow> ((bool \<times> nat) \<times> string) option" where
  "lex_exponent s =
     (case s of
        c # r \<Rightarrow>
          if c = CHR ''e'' \<or> c = CHR ''E'' then
            (let (neg, r1) =
                   (case r of
                      sg # r' \<Rightarrow>
                        if sg = CHR ''-'' then (True, r')
                        else if sg = CHR ''+'' then (False, r')
                        else (False, r)
                    | [] \<Rightarrow> (False, r));
                 ds = takeWhile is_digit r1
             in if ds = [] then None else Some ((neg, digits_val ds), dropWhile is_digit r1))
          else Some ((False, 0), s)
      | [] \<Rightarrow> Some ((False, 0), s))"

definition decimal :: "nat \<Rightarrow> int \<Rightarrow> jsnum" where
  "decimal m x =
     (if 0 \<le> x then round_fraction (int m * int_pow 10 x) 1
      else round_fraction (int m) (int_pow 10 (- x)))"

definition lex_number :: "string \<Rightarrow> (jsnum \<times> string) option" where
  "lex_number s =
     (let (neg, s1) =
            (case s of
               c # r \<Rightarrow> if c = CHR ''-'' then (True, r) else (False, s)
             | [] \<Rightarrow> (False, s));
          ds = takeWhile is_digit s1
      in if ds = [] \<or> (hd ds = CHR ''0'' \<and> length ds > 1) then None
         else
           (case lex_fraction (dropWhile is_digit s1) of
              None \<Rightarrow> None
            | Some (fs, s2) \<Rightarrow>
                (case lex_exponent s2 of
                   None \<Rightarrow> None
                 | Some ((eneg, e), s3) \<Rightarrow>
                     (let v = decimal (digits_val (ds @ fs))
                                ((if eneg then - int e else int e) - int (length fs))
                      in Some (if neg then num_neg v else v, s3)))))"

text \<open>Each literal consumes at least one character, so the tokenizer terminates.\<close>

lemma lex_string_rest: "lex_string cs acc = Some (s, rest) \<Longrightarrow> length rest < length cs"
proof (induction cs arbitrary: acc rule: length_induct)
  case (1 cs)
  note IH = 1(1) [rule_format] and eq = 1(2)
  show ?case
  proof (cases cs)
    case Nil
    with eq show ?thesis by simp
  next
    case (Cons c cs0)
    consider (quote) "c = CHR 0x22"
      | (plain) "c \<noteq> CHR 0x22" "c \<noteq> CHR 0x5C"
      | (esc) "c \<noteq> CHR 0x22" "c = CHR 0x5C"
      by blast
    then show ?thesis
    proof cases
      case quote
      with eq Cons show ?thesis by simp
    next
      case plain
      with eq Cons have "lex_string cs0 (acc @ [of_char c]) = Some (s, rest)"
        by (simp split: if_splits)
      from IH [OF _ this] Cons show ?thesis by simp
    next
      case esc
      show ?thesis
      proof (cases cs0)
        case Nil
        with eq Cons esc show ?thesis by simp
      next
        case e: (Cons e cs1)
        show ?thesis
        proof (cases "e = CHR ''u''")
          case False
          with eq Cons esc e obtain n where
            "lex_string cs1 (acc @ [n]) = Some (s, rest)"
            by (auto split: option.splits)
          from IH [OF _ this] Cons e show ?thesis by simp
        next
          case True
          with eq Cons esc e obtain h1 h2 h3 h4 cs2 n where
            cs1: "cs1 = h1 # h2 # h3 # h4 # cs2" and
            "lex_string cs2 (acc @ [n]) = Some (s, rest)"
            by (auto split: list.splits option.splits)
          from IH [OF _ this(2)] Cons e cs1 show ?thesis by simp
        qed
      qed
    qed
  qed
qed

lemma lex_fraction_rest: "lex_fraction s = Some (v, rest) \<Longrightarrow> length rest \<le> length s"
  by (auto simp: lex_fraction_def Let_def length_dropWhile_le le_SucI split: list.splits if_splits)

lemma lex_exponent_rest: "lex_exponent s = Some (v, rest) \<Longrightarrow> length rest \<le> length s"
  by (auto simp: lex_exponent_def Let_def length_dropWhile_le le_SucI split: list.splits if_splits)

lemma dropWhile_shorter: "takeWhile P xs \<noteq> [] \<Longrightarrow> length (dropWhile P xs) < length xs"
  by (cases xs) (auto simp: length_dropWhile_le less_Suc_eq_le split: if_splits)

lemma lex_number_rest:
  assumes "lex_number s = Some (v, rest)"
  shows "length rest < length s"
proof -
  obtain neg s1 where ns: "(neg, s1) = (case s of c # r \<Rightarrow> if c = CHR ''-'' then (True, r) else (False, s) | [] \<Rightarrow> (False, s))"
    by (metis surj_pair)
  have s1: "length s1 \<le> length s"
    using ns by (auto split: list.splits if_splits)
  from assms ns [symmetric] have nonempty: "takeWhile is_digit s1 \<noteq> []"
    by (auto simp: lex_number_def Let_def split: if_splits)
  from assms ns [symmetric] nonempty obtain fs s2 ee s3 where
    f: "lex_fraction (dropWhile is_digit s1) = Some (fs, s2)" and
    e: "lex_exponent s2 = Some (ee, s3)" and r: "rest = s3"
    by (auto simp: lex_number_def Let_def split: if_splits option.splits prod.splits)
  have "length s3 \<le> length s2" using lex_exponent_rest [OF e] .
  also have "\<dots> \<le> length (dropWhile is_digit s1)" using lex_fraction_rest [OF f] .
  also have "\<dots> < length s1" using dropWhile_shorter [OF nonempty] .
  finally show ?thesis using s1 r by simp
qed

text \<open>The tokens of a text; \<open>None\<close> when some character starts no token.\<close>

function lex :: "string \<Rightarrow> token list option" where
  "lex [] = Some []"
| "lex (c # cs) =
     (if is_ws c then lex cs
      else if c = CHR ''{'' then map_option (Cons LBrace) (lex cs)
      else if c = CHR ''}'' then map_option (Cons RBrace) (lex cs)
      else if c = CHR ''['' then map_option (Cons LBracket) (lex cs)
      else if c = CHR '']'' then map_option (Cons RBracket) (lex cs)
      else if c = CHR '':'' then map_option (Cons Colon) (lex cs)
      else if c = CHR '','' then map_option (Cons Comma) (lex cs)
      else if c = CHR 0x22 then
        (case lex_string cs [] of
           None \<Rightarrow> None
         | Some (s, rest) \<Rightarrow> map_option (Cons (StringTok s)) (lex rest))
      else if c = CHR ''-'' \<or> is_digit c then
        (case lex_number (c # cs) of
           None \<Rightarrow> None
         | Some (v, rest) \<Rightarrow> map_option (Cons (NumberTok v)) (lex rest))
      else if take 4 (c # cs) = ''true'' then map_option (Cons TrueTok) (lex (drop 3 cs))
      else if take 5 (c # cs) = ''false'' then map_option (Cons FalseTok) (lex (drop 4 cs))
      else if take 4 (c # cs) = ''null'' then map_option (Cons NullTok) (lex (drop 3 cs))
      else None)"
  by pat_completeness auto
termination
proof (relation "measure length", goal_cases)
  case (9 c cs x2 s rest)
  then show ?case using lex_string_rest [of cs "[]" s rest] by simp
next
  case (10 c cs x2 v rest)
  then show ?case using lex_number_rest [of "c # cs" v rest] by simp
qed simp_all

subsection \<open>The grammar\<close>

text \<open>
  The parser is a pushdown automaton over the tokens. The stack holds the arrays and
  objects that are still open, the innermost first; an open object also holds the key
  that waits for its value. A repeated key keeps its first position and takes the last
  value, as the properties of a JavaScript object do.
\<close>

datatype frame =
    InArray "jsval list"
  | InObject "(jsstring \<times> jsval) list" "jsstring option"

datatype expect =
    Value | ValueOrClose | Key | KeyOrClose | KeyColon | CommaOrClose | Finished jsval

text \<open>A value is complete: it is the result, or it goes into the innermost open
  array or object.\<close>

fun finish :: "jsval \<Rightarrow> frame list \<Rightarrow> (frame list \<times> expect) option" where
  "finish v [] = Some ([], Finished v)"
| "finish v (InArray xs # st) = Some (InArray (xs @ [v]) # st, CommaOrClose)"
| "finish v (InObject kvs (Some k) # st) =
     Some (InObject (AList.update k v kvs) None # st, CommaOrClose)"
| "finish v (InObject kvs None # st) = None"

fun start_value :: "token \<Rightarrow> frame list \<Rightarrow> (frame list \<times> expect) option" where
  "start_value LBrace st = Some (InObject [] None # st, KeyOrClose)"
| "start_value LBracket st = Some (InArray [] # st, ValueOrClose)"
| "start_value (StringTok s) st = finish (JString s) st"
| "start_value (NumberTok n) st = finish (JNum n) st"
| "start_value TrueTok st = finish (JBool True) st"
| "start_value FalseTok st = finish (JBool False) st"
| "start_value NullTok st = finish JNull st"
| "start_value t st = None"

fun close_array :: "frame list \<Rightarrow> (frame list \<times> expect) option" where
  "close_array (InArray xs # st) = finish (JArray xs) st"
| "close_array st = None"

fun close_object :: "frame list \<Rightarrow> (frame list \<times> expect) option" where
  "close_object (InObject kvs None # st) = finish (JObject kvs) st"
| "close_object st = None"

fun set_key :: "jsstring \<Rightarrow> frame list \<Rightarrow> (frame list \<times> expect) option" where
  "set_key k (InObject kvs None # st) = Some (InObject kvs (Some k) # st, KeyColon)"
| "set_key k st = None"

fun after_comma :: "frame list \<Rightarrow> (frame list \<times> expect) option" where
  "after_comma (InArray xs # st) = Some (InArray xs # st, Value)"
| "after_comma (InObject kvs None # st) = Some (InObject kvs None # st, Key)"
| "after_comma st = None"

fun step :: "token \<Rightarrow> frame list \<times> expect \<Rightarrow> (frame list \<times> expect) option" where
  "step t (st, Value) = start_value t st"
| "step t (st, ValueOrClose) = (if t = RBracket then close_array st else start_value t st)"
| "step t (st, Key) = (case t of StringTok k \<Rightarrow> set_key k st | _ \<Rightarrow> None)"
| "step t (st, KeyOrClose) =
     (case t of StringTok k \<Rightarrow> set_key k st | RBrace \<Rightarrow> close_object st | _ \<Rightarrow> None)"
| "step t (st, KeyColon) = (if t = Colon then Some (st, Value) else None)"
| "step t (st, CommaOrClose) =
     (case t of
        Comma \<Rightarrow> after_comma st
      | RBracket \<Rightarrow> close_array st
      | RBrace \<Rightarrow> close_object st
      | _ \<Rightarrow> None)"
| "step t (st, Finished v) = None"

fun run :: "token list \<Rightarrow> frame list \<times> expect \<Rightarrow> jsval option" where
  "run [] (st, e) = (case e of Finished v \<Rightarrow> (if st = [] then Some v else None) | _ \<Rightarrow> None)"
| "run (t # ts) s = (case step t s of None \<Rightarrow> None | Some s' \<Rightarrow> run ts s')"

text \<open>\<^verbatim>\<open>JSON.parse(text)\<close>: the value, or the SyntaxError it throws.\<close>

definition JSON_parse :: "string \<Rightarrow> js_error + jsval" where
  "JSON_parse text =
     (case lex text of
        None \<Rightarrow> Inl (SyntaxError ''Unexpected token in JSON'')
      | Some ts \<Rightarrow>
          (case run ts ([], Value) of
             None \<Rightarrow> Inl (SyntaxError ''Unexpected token in JSON'')
           | Some v \<Rightarrow> Inr v))"

text \<open>The invariant of a parse that began with an opening brace: the outermost open
  frame is an object.\<close>

definition bottom_object :: "frame list \<Rightarrow> bool" where
  "bottom_object st =
     (st \<noteq> [] \<and> (case last st of InObject kvs k \<Rightarrow> True | InArray xs \<Rightarrow> False))"

section \<open>Capabilities and effects\<close>

text \<open>
  The evaluators, the mediator, the judge and the clarifier are remote models. What a
  capability does when it is invoked is an input of the model: it fails with an error
  (\<open>Rejects\<close>, with the message of the error), or it answers (\<open>Resolves\<close>, with the text
  that the regular expression reads, or that is trimmed). The prompt only decides what
  the capability answers, so its wording is left out; what is kept of it is the points
  at which building it raises. Every function returns, next to its result, the
  invocations it made, in order; an invocation of the mediator, of the judge or of the
  clarifier carries the values of which its prompt is made: the evaluation set, and for
  the judge the result of the negotiation. An \<^verbatim>\<open>async\<close> function's result is \<open>Inr\<close> its
  value when the promise is fulfilled and \<open>Inl\<close> the error when it is rejected. Console
  output is not part of the model, but a log line that converts a value to text
  raises when the conversion does.
\<close>

datatype response = Rejects string | Resolves string

datatype agent = HR | Manager | Sales

datatype call =
    EvaluatorCall agent
  | MediatorCall jsval
  | JudgeCall jsval jsval
  | ClarifierCall jsval

record capabilities =
  evaluator :: "agent \<Rightarrow> response"
  mediator :: response
  judge :: response
  clarifier :: response

text \<open>
  The candidate is an object with these four properties. \<^verbatim>\<open>email\<close>, \<^verbatim>\<open>role_applying\<close> and
  \<^verbatim>\<open>cv_text\<close> may hold any JSON value, or be missing. \<^verbatim>\<open>agents.js\<close> does nothing with
  \<^verbatim>\<open>candidate.name\<close> but convert it to text, and its caller has done so for its own log
  line (\<^verbatim>\<open>server.js\<close>, line 161) before it calls \<^verbatim>\<open>evaluateCandidate\<close>: \<open>name\<close> is that
  text, and the two log lines and the replacement that write it raise nothing.
\<close>

record candidate =
  name :: jsstring
  email :: jsval
  role_applying :: jsval
  cv_text :: jsval

section \<open>\<^verbatim>\<open>agents.js\<close>\<close>

subsection \<open>\<^verbatim>\<open>Agent.evaluate\<close>\<close>

text \<open>The default evaluation of the \<^verbatim>\<open>catch\<close> block.\<close>

definition placeholder :: "string \<Rightarrow> jsval" where
  "placeholder msg =
     JObject
       [(str ''score'', JNum (Fin 5)),
        (str ''recommendation'', JString (str ''MAYBE'')),
        (str ''analysis'',
           JObject
             [(str ''error'', JString (str msg)),
              (str ''note'', JString (str ''Evaluation failed, returning neutral score''))])]"

text \<open>\<^verbatim>\<open>candidate.cv_text.substring(0, 2000)\<close> raises unless \<^verbatim>\<open>cv_text\<close> is a string.\<close>

fun substring_error :: "jsval \<Rightarrow> js_error option" where
  "substring_error (JString s) = None"
| "substring_error JUndefined =
     Some (TypeError ''Cannot read properties of undefined (reading substring)'')"
| "substring_error JNull =
     Some (TypeError ''Cannot read properties of null (reading substring)'')"
| "substring_error v = Some (TypeError ''candidate.cv_text.substring is not a function'')"

text \<open>Filling the prompt: \<^verbatim>\<open>replace\<close> converts \<^verbatim>\<open>candidate.email\<close> and
  \<^verbatim>\<open>candidate.role_applying\<close> to text, then the start of the CV is taken.\<close>

definition filledPrompt_error :: "candidate \<Rightarrow> js_error option" where
  "filledPrompt_error c =
     first_error
       [convert_error (email c), convert_error (role_applying c), substring_error (cv_text c)]"

text \<open>The \<^verbatim>\<open>try\<close> block: the prompt, the call, the match, the parse, and the log line
  that writes the score and the recommendation of the parsed evaluation.\<close>

definition evaluate_try :: "agent \<Rightarrow> response \<Rightarrow> candidate \<Rightarrow> (js_error + jsval) \<times> call list" where
  "evaluate_try a r c =
     (case filledPrompt_error c of
        Some e \<Rightarrow> (Inl e, [])
      | None \<Rightarrow>
          (case r of
             Rejects msg \<Rightarrow> (Inl (Error msg), [EvaluatorCall a])
           | Resolves responseText \<Rightarrow>
               (case regex_exec responseText of
                  Some jsonMatch \<Rightarrow>
                    (case JSON_parse jsonMatch of
                       Inl e \<Rightarrow> (Inl e, [EvaluatorCall a])
                     | Inr evaluation \<Rightarrow>
                         (case first_error
                                 [written_error evaluation ''score'',
                                  written_error evaluation ''recommendation''] of
                            Some e \<Rightarrow> (Inl e, [EvaluatorCall a])
                          | None \<Rightarrow> (Inr evaluation, [EvaluatorCall a])))
                | None \<Rightarrow>
                    (Inl (Error ''Invalid JSON response format from agent''),
                     [EvaluatorCall a]))))"

definition evaluate :: "agent \<Rightarrow> response \<Rightarrow> candidate \<Rightarrow> (js_error + jsval) \<times> call list" where
  "evaluate a r c =
     (case evaluate_try a r c of
        (Inl error, calls) \<Rightarrow> (Inr (placeholder (message error)), calls)
      | (Inr evaluation, calls) \<Rightarrow> (Inr evaluation, calls))"

subsection \<open>\<^verbatim>\<open>Promise.all\<close> and \<^verbatim>\<open>evaluateCandidate\<close>\<close>

text \<open>
  \<^verbatim>\<open>Promise.all\<close> over promises that settle one after the other. \<open>ps\<close> gives how each
  input promise settles and \<open>order\<close> the sequence in which they do, by index. The
  joined promise is rejected as soon as one input is, and fulfilled with all the values,
  in the order of the inputs, when the last slot is filled. Once settled it stays.
\<close>

fun settle ::
  "(js_error + 'a) list \<Rightarrow> nat \<Rightarrow> 'a option list \<times> 'a list promise \<Rightarrow>
   'a option list \<times> 'a list promise" where
  "settle ps i (slots, Pending) =
     (if i < length ps then
        (case ps ! i of
           Inr v \<Rightarrow>
             (let slots' = slots[i := Some v]
              in (slots', if None \<in> set slots' then Pending else Fulfilled (map the slots')))
         | Inl e \<Rightarrow> (slots, Rejected e))
      else (slots, Pending))"
| "settle ps i (slots, out) = (slots, out)"

definition Promise_all :: "(js_error + 'a) list \<Rightarrow> nat list \<Rightarrow> 'a list promise" where
  "Promise_all ps order =
     snd (fold (settle ps) order
            (replicate (length ps) None, if ps = [] then Fulfilled [] else Pending))"

text \<open>Array destructuring: a position that is not there is \<^verbatim>\<open>undefined\<close>.\<close>

definition element :: "jsval list \<Rightarrow> nat \<Rightarrow> jsval" where
  "element xs i = (if i < length xs then xs ! i else JUndefined)"

text \<open>The three evaluations start in the order hr, manager, sales; \<open>order\<close> is the
  sequence in which they have completed so far. The \<^verbatim>\<open>catch\<close> block throws the error
  again.\<close>

definition evaluateCandidate ::
  "(agent \<Rightarrow> response) \<Rightarrow> nat list \<Rightarrow> candidate \<Rightarrow> jsval promise \<times> call list" where
  "evaluateCandidate R order c =
     (let hrP = evaluate HR (R HR) c;
          managerP = evaluate Manager (R Manager) c;
          salesP = evaluate Sales (R Sales) c
      in ((case Promise_all [fst hrP, fst managerP, fst salesP] order of
             Fulfilled evals \<Rightarrow>
               Fulfilled
                 (JObject
                    [(str ''hr'', element evals 0),
                     (str ''manager'', element evals 1),
                     (str ''sales'', element evals 2)])
           | Rejected error \<Rightarrow> Rejected error
           | Pending \<Rightarrow> Pending),
          snd hrP @ snd managerP @ snd salesP))"

subsection \<open>\<^verbatim>\<open>negotiateScores\<close>\<close>

text \<open>\<^verbatim>\<open>evaluations.hr.score\<close>, for \<^verbatim>\<open>hr\<close>, \<^verbatim>\<open>manager\<close> and \<^verbatim>\<open>sales\<close>.\<close>

definition score_of :: "jsval \<Rightarrow> string \<Rightarrow> js_error + jsval" where
  "score_of evaluations who =
     and_then (get_prop evaluations who) (\<lambda>evaluation. get_prop evaluation ''score'')"

text \<open>The mean of the three scores and the largest distance of a score from it, in
  the arithmetic of doubles and in the order in which the code reads and converts.\<close>

definition avgScore :: "builtins \<Rightarrow> jsval \<Rightarrow> js_error + jsnum" where
  "avgScore B evaluations =
     and_then (score_of evaluations ''hr'') (\<lambda>h.
     and_then (score_of evaluations ''manager'') (\<lambda>m.
     and_then (js_plus B h m) (\<lambda>hm.
     and_then (score_of evaluations ''sales'') (\<lambda>s.
     and_then (js_plus B hm s) (\<lambda>sum.
     js_div3 B sum)))))"

definition distance :: "builtins \<Rightarrow> jsval \<Rightarrow> string \<Rightarrow> jsnum \<Rightarrow> js_error + jsnum" where
  "distance B evaluations who avg =
     and_then (score_of evaluations who) (\<lambda>score.
     and_then (js_minus B score (JNum avg)) (\<lambda>d.
     Inr (num_abs d)))"

definition maxDiff :: "builtins \<Rightarrow> jsval \<Rightarrow> jsnum \<Rightarrow> js_error + jsnum" where
  "maxDiff B evaluations avg =
     and_then (distance B evaluations ''hr'' avg) (\<lambda>dh.
     and_then (distance B evaluations ''manager'' avg) (\<lambda>dm.
     and_then (distance B evaluations ''sales'' avg) (\<lambda>ds.
     Inr (Math_max dh dm ds))))"

text \<open>The prompt of the mediator writes, for each agent, the score, the recommendation
  and the analysis as JSON. \<^verbatim>\<open>replace\<close> converts the first two to text;
  \<^verbatim>\<open>JSON.stringify\<close> raises on no JSON value.\<close>

definition report_error :: "jsval \<Rightarrow> string \<Rightarrow> js_error option" where
  "report_error evaluations who =
     (case get_prop evaluations who of
        Inl e \<Rightarrow> Some e
      | Inr evaluation \<Rightarrow>
          first_error
            [written_error evaluation ''score'', written_error evaluation ''recommendation''])"

definition negotiationPrompt_error :: "jsval \<Rightarrow> js_error option" where
  "negotiationPrompt_error evaluations =
     first_error
       [report_error evaluations ''hr'', report_error evaluations ''manager'',
        report_error evaluations ''sales'']"

text \<open>The \<^verbatim>\<open>try\<close> block. The log line after the parse writes the consensus score of
  the parsed negotiation.\<close>

definition negotiateScores_try ::
  "builtins \<Rightarrow> response \<Rightarrow> jsval \<Rightarrow> (js_error + jsval) \<times> call list" where
  "negotiateScores_try B r evaluations =
     (case avgScore B evaluations of
        Inl e \<Rightarrow> (Inl e, [])
      | Inr avg \<Rightarrow>
     (case maxDiff B evaluations avg of
        Inl e \<Rightarrow> (Inl e, [])
      | Inr d \<Rightarrow>
          if num_gt d (Fin 2) then
            (case negotiationPrompt_error evaluations of
               Some e \<Rightarrow> (Inl e, [])
             | None \<Rightarrow>
            (case r of
               Rejects msg \<Rightarrow> (Inl (Error msg), [MediatorCall evaluations])
             | Resolves responseText \<Rightarrow>
                 (case regex_exec responseText of
                    Some jsonMatch \<Rightarrow>
                      (case JSON_parse jsonMatch of
                         Inl e \<Rightarrow> (Inl e, [MediatorCall evaluations])
                       | Inr negotiation \<Rightarrow>
                           (case written_error negotiation ''consensus_score'' of
                              Some e \<Rightarrow> (Inl e, [MediatorCall evaluations])
                            | None \<Rightarrow> (Inr negotiation, [MediatorCall evaluations])))
                  | None \<Rightarrow>
                      (Inl (Error ''Failed to parse JSON negotiation from AI response''),
                       [MediatorCall evaluations]))))
          else (Inr JNull, [])))"

definition negotiateScores ::
  "builtins \<Rightarrow> response \<Rightarrow> jsval \<Rightarrow> (js_error + jsval) \<times> call list" where
  "negotiateScores B r evaluations =
     (case negotiateScores_try B r evaluations of
        (Inl error, calls) \<Rightarrow> (Inr JNull, calls)
      | (Inr negotiation, calls) \<Rightarrow> (Inr negotiation, calls))"

section \<open>The Gemini variant of \<^verbatim>\<open>negotiateScores\<close>\<close>

text \<open>The older module (\<^verbatim>\<open>server.js\<close>, lines 540 to 598) writes the same values into a
  template literal, calls the Gemini client and, when nothing matches, falls through
  to \<^verbatim>\<open>return null\<close> instead of throwing.\<close>

definition negotiateScores_gemini_try ::
  "builtins \<Rightarrow> response \<Rightarrow> jsval \<Rightarrow> (js_error + jsval) \<times> call list" where
  "negotiateScores_gemini_try B r evaluations =
     (case avgScore B evaluations of
        Inl e \<Rightarrow> (Inl e, [])
      | Inr avg \<Rightarrow>
     (case maxDiff B evaluations avg of
        Inl e \<Rightarrow> (Inl e, [])
      | Inr d \<Rightarrow>
          if num_gt d (Fin 2) then
            (case negotiationPrompt_error evaluations of
               Some e \<Rightarrow> (Inl e, [])
             | None \<Rightarrow>
            (case r of
               Rejects msg \<Rightarrow> (Inl (Error msg), [MediatorCall evaluations])
             | Resolves responseText \<Rightarrow>
                 (case regex_exec responseText of
                    Some jsonMatch \<Rightarrow>
                      (case JSON_parse jsonMatch of
                         Inl e \<Rightarrow> (Inl e, [MediatorCall evaluations])
                       | Inr negotiation \<Rightarrow>
                           (case written_error negotiation ''consensus_score'' of
                              Some e \<Rightarrow> (Inl e, [MediatorCall evaluations])
                            | None \<Rightarrow> (Inr negotiation, [MediatorCall evaluations])))
                  | None \<Rightarrow> (Inr JNull, [MediatorCall evaluations]))))
          else (Inr JNull, [])))"

definition negotiateScores_gemini ::
  "builtins \<Rightarrow> response \<Rightarrow> jsval \<Rightarrow> (js_error + jsval) \<times> call list" where
  "negotiateScores_gemini B r evaluations =
     (case negotiateScores_gemini_try B r evaluations of
        (Inl error, calls) \<Rightarrow> (Inr JNull, calls)
      | (Inr negotiation, calls) \<Rightarrow> (Inr negotiation, calls))"

section \<open>\<^verbatim>\<open>decision.js\<close>\<close>

text \<open>
  Both prompts of the decision engine write, for each agent,
  \<^verbatim>\<open>evaluations.hr?.score\<close>, \<^verbatim>\<open>evaluations.hr?.recommendation\<close> and
  \<^verbatim>\<open>JSON.stringify(evaluations.hr?.analysis).substring(0, 100)\<close>. The first two are
  converted to text. \<^verbatim>\<open>JSON.stringify\<close> of \<^verbatim>\<open>undefined\<close> is \<^verbatim>\<open>undefined\<close>, so an evaluation
  without \<^verbatim>\<open>analysis\<close> raises a TypeError. All this happens while the prompt is built,
  before the capability is invoked.
\<close>

definition insight_error :: "jsval \<Rightarrow> string \<Rightarrow> js_error option" where
  "insight_error evaluations who =
     (case get_prop evaluations who of
        Inl e \<Rightarrow> Some e
      | Inr evaluation \<Rightarrow>
          first_error
            [convert_error (get_opt evaluation ''score''),
             convert_error (get_opt evaluation ''recommendation''),
             if get_opt evaluation ''analysis'' = JUndefined
             then Some (TypeError ''Cannot read properties of undefined (reading substring)'')
             else None])"

definition prompt_error :: "jsval \<Rightarrow> js_error option" where
  "prompt_error evaluations =
     first_error
       [insight_error evaluations ''hr'', insight_error evaluations ''manager'',
        insight_error evaluations ''sales'']"

text \<open>The prompt of the judge goes on with the result of the negotiation, if there is
  one: its \<^verbatim>\<open>consensus_score\<close> and its \<^verbatim>\<open>reasoning\<close> are converted to text. The scores
  written after that have been converted before.\<close>

definition consensus_error :: "jsval \<Rightarrow> js_error option" where
  "consensus_error negotiationResult =
     (if truthy negotiationResult then
        first_error
          [written_error negotiationResult ''consensus_score'',
           written_error negotiationResult ''reasoning'']
      else None)"

definition generateFinalDecision_try ::
  "response \<Rightarrow> jsval \<Rightarrow> jsval \<Rightarrow> (js_error + jsval) \<times> call list" where
  "generateFinalDecision_try r evaluations negotiationResult =
     (case first_error [prompt_error evaluations, consensus_error negotiationResult] of
        Some e \<Rightarrow> (Inl e, [])
      | None \<Rightarrow>
          (case r of
             Rejects msg \<Rightarrow> (Inl (Error msg), [JudgeCall evaluations negotiationResult])
           | Resolves responseText \<Rightarrow>
               (case regex_exec responseText of
                  Some jsonMatch \<Rightarrow>
                    (case JSON_parse jsonMatch of
                       Inl e \<Rightarrow> (Inl e, [JudgeCall evaluations negotiationResult])
                     | Inr decision \<Rightarrow> (Inr decision, [JudgeCall evaluations negotiationResult]))
                | None \<Rightarrow>
                    (Inl (Error ''Failed to parse JSON decision from AI response''),
                     [JudgeCall evaluations negotiationResult]))))"

definition generateFinalDecision ::
  "response \<Rightarrow> jsval \<Rightarrow> jsval \<Rightarrow> (js_error + jsval) \<times> call list" where
  "generateFinalDecision r evaluations negotiationResult =
     (case generateFinalDecision_try r evaluations negotiationResult of
        (Inl error, calls) \<Rightarrow> (Inr JNull, calls)
      | (Inr decision, calls) \<Rightarrow> (Inr decision, calls))"

definition generateFollowUpQuestion_try ::
  "response \<Rightarrow> jsval \<Rightarrow> (js_error + jsval) \<times> call list" where
  "generateFollowUpQuestion_try r evaluations =
     (case prompt_error evaluations of
        Some e \<Rightarrow> (Inl e, [])
      | None \<Rightarrow>
          (case r of
             Rejects msg \<Rightarrow> (Inl (Error msg), [ClarifierCall evaluations])
           | Resolves responseText \<Rightarrow>
               (Inr (JString (str (trim responseText))), [ClarifierCall evaluations])))"

definition generateFollowUpQuestion ::
  "response \<Rightarrow> jsval \<Rightarrow> (js_error + jsval) \<times> call list" where
  "generateFollowUpQuestion r evaluations =
     (case generateFollowUpQuestion_try r evaluations of
        (Inl error, calls) \<Rightarrow> (Inr JNull, calls)
      | (Inr question, calls) \<Rightarrow> (Inr question, calls))"

text \<open>The neutral decision of the \<^verbatim>\<open>catch\<close> block of \<^verbatim>\<open>decideHiring\<close>.\<close>

definition fallback :: "string \<Rightarrow> jsval" where
  "fallback msg =
     JObject
       [(str ''final_decision'', JString (str ''MAYBE'')),
        (str ''confidence_score'', JNum (Fin (1 / 2))),
        (str ''reasoning'',
           JString (str ''Decision could not be fully evaluated. Recommend manual review.'')),
        (str ''error'', JString (str msg)),
        (str ''details'', JObject [])]"

text \<open>Step 3 of \<^verbatim>\<open>decideHiring\<close>, on a decision that is an object with the properties
  \<open>kvs\<close>: the follow-up question, when the decision is \<^verbatim>\<open>MAYBE\<close> and carries none. The
  question is attached, and then \<^verbatim>\<open>+=\<close> converts the rationale to a primitive value,
  which may raise.\<close>

definition follow_up ::
  "builtins \<Rightarrow> response \<Rightarrow> jsval \<Rightarrow> (jsstring \<times> jsval) list \<Rightarrow> (js_error + jsval) \<times> call list" where
  "follow_up B r evaluations kvs =
     (let decision = JObject kvs in
      if get_opt decision ''final_decision'' = JString (str ''MAYBE'')
         \<and> \<not> truthy (get_opt decision ''follow_up_question'')
      then
        (case generateFollowUpQuestion r evaluations of
           (Inl e, calls) \<Rightarrow> (Inl e, calls)
         | (Inr followUp, calls) \<Rightarrow>
             if truthy followUp then
               (let kvs1 = AList.update (str ''follow_up_question'') followUp kvs in
                case js_plus B (get_opt (JObject kvs1) ''reasoning'')
                       (JString (str '' A follow-up question is recommended to clarify ambiguities.'')) of
                  Inl e \<Rightarrow> (Inl e, calls)
                | Inr reasoning \<Rightarrow>
                    (Inr (JObject (AList.update (str ''reasoning'') reasoning kvs1)), calls))
             else (Inr decision, calls))
      else (Inr decision, []))"

text \<open>The two log lines at the end of the \<^verbatim>\<open>try\<close> block write the outcome and, as a
  percentage, the confidence of the decision: the first converts \<^verbatim>\<open>final_decision\<close> to
  text and the second \<^verbatim>\<open>confidence_score\<close> to a number.\<close>

definition log_error :: "jsval \<Rightarrow> js_error option" where
  "log_error decision =
     first_error
       [written_error decision ''final_decision'', written_error decision ''confidence_score'']"

text \<open>The \<^verbatim>\<open>try\<close> block of \<^verbatim>\<open>decideHiring\<close>. A decision that is no object is \<^verbatim>\<open>null\<close>, on
  which reading \<^verbatim>\<open>final_decision\<close> raises, or has no properties.\<close>

definition decideHiring_try ::
  "builtins \<Rightarrow> capabilities \<Rightarrow> jsval \<Rightarrow> (js_error + jsval) \<times> call list" where
  "decideHiring_try B caps evaluations =
     (case negotiateScores B (mediator caps) evaluations of
        (Inl e, calls1) \<Rightarrow> (Inl e, calls1)
      | (Inr negotiationResult, calls1) \<Rightarrow>
          (case generateFinalDecision (judge caps) evaluations negotiationResult of
             (Inl e, calls2) \<Rightarrow> (Inl e, calls1 @ calls2)
           | (Inr decision, calls2) \<Rightarrow>
               (case decision of
                  JObject kvs \<Rightarrow>
                    (case follow_up B (clarifier caps) evaluations kvs of
                       (Inl e, calls3) \<Rightarrow> (Inl e, calls1 @ calls2 @ calls3)
                     | (Inr decision', calls3) \<Rightarrow>
                         (case log_error decision' of
                            Some e \<Rightarrow> (Inl e, calls1 @ calls2 @ calls3)
                          | None \<Rightarrow> (Inr decision', calls1 @ calls2 @ calls3)))
                | _ \<Rightarrow>
                    (case get_prop decision ''final_decision'' of
                       Inl e \<Rightarrow> (Inl e, calls1 @ calls2)
                     | Inr final_decision \<Rightarrow> (Inr decision, calls1 @ calls2)))))"

definition decideHiring ::
  "builtins \<Rightarrow> capabilities \<Rightarrow> jsval \<Rightarrow> (js_error + jsval) \<times> call list" where
  "decideHiring B caps evaluations =
     (case decideHiring_try B caps evaluations of
        (Inl error, calls) \<Rightarrow> (Inr (fallback (message error)), calls)
      | (Inr decision, calls) \<Rightarrow> (Inr decision, calls))"

section \<open>The notions of the statements\<close>

subsection \<open>From the specification\<close>

text \<open>The discrepancy detector of the specification: the arithmetic mean of the scores,
  the largest absolute deviation from it, and the configured threshold.\<close>

definition mean3 :: "rat \<Rightarrow> rat \<Rightarrow> rat \<Rightarrow> rat" where
  "mean3 a b c = (a + b + c) / 3"

definition maxDeviation :: "rat \<Rightarrow> rat \<Rightarrow> rat \<Rightarrow> rat" where
  "maxDeviation a b c =
     Max {\<bar>a - mean3 a b c\<bar>, \<bar>b - mean3 a b c\<bar>, \<bar>c - mean3 a b c\<bar>}"

definition threshold :: rat where
  "threshold = 2"

text \<open>An evaluation set whose three scores are the numbers \<open>a\<close>, \<open>b\<close> and \<open>c\<close>.\<close>

definition has_scores :: "jsval \<Rightarrow> rat \<Rightarrow> rat \<Rightarrow> rat \<Rightarrow> bool" where
  "has_scores evaluations a b c =
     (score_of evaluations ''hr'' = Inr (JNum (Fin a))
      \<and> score_of evaluations ''manager'' = Inr (JNum (Fin b))
      \<and> score_of evaluations ''sales'' = Inr (JNum (Fin c)))"

text \<open>The validation that the specification asks of an evaluation: a numeric score and
  a recognized recommendation label.\<close>

fun is_number :: "jsval \<Rightarrow> bool" where
  "is_number (JNum (Fin x)) = True"
| "is_number v = False"

definition valid_evaluation :: "jsval \<Rightarrow> bool" where
  "valid_evaluation v =
     (is_number (get_opt v ''score'')
      \<and> get_opt v ''recommendation''
          \<in> {JString (str ''STRONG_YES''), JString (str ''YES''),
              JString (str ''MAYBE''), JString (str ''NO'')})"

text \<open>The first balanced object-shaped substring of a text, counting braces.\<close>

fun balanced_rest :: "nat \<Rightarrow> string \<Rightarrow> string option" where
  "balanced_rest d [] = None"
| "balanced_rest d (c # cs) =
     (if c = CHR ''}'' then
        (if d \<le> 1 then Some [c] else map_option (Cons c) (balanced_rest (d - 1) cs))
      else if c = CHR ''{'' then map_option (Cons c) (balanced_rest (Suc d) cs)
      else map_option (Cons c) (balanced_rest d cs))"

definition first_balanced :: "string \<Rightarrow> string option" where
  "first_balanced text =
     (case dropWhile (\<lambda>c. c \<noteq> CHR ''{'') text of
        [] \<Rightarrow> None
      | c # cs \<Rightarrow> map_option (Cons c) (balanced_rest 1 cs))"

text \<open>The ranges that the specification gives a consensus result and a decision.\<close>

definition valid_consensus :: "jsval \<Rightarrow> bool" where
  "valid_consensus v =
     (case get_opt v ''consensus_score'' of
        JNum (Fin x) \<Rightarrow> 1 \<le> x \<and> x \<le> 10
      | _ \<Rightarrow> False)"

definition valid_decision :: "jsval \<Rightarrow> bool" where
  "valid_decision d =
     (get_opt d ''final_decision''
        \<in> {JString (str ''HIRE''), JString (str ''REJECT''), JString (str ''MAYBE'')}
      \<and> (case get_opt d ''confidence_score'' of
            JNum (Fin x) \<Rightarrow> 0 \<le> x \<and> x \<le> 1
          | _ \<Rightarrow> False))"

subsection \<open>Abbreviations of what the code does\<close>

text \<open>What the four \<^verbatim>\<open>try\<close> blocks do with a response: the JSON object found in it,
  when the capability resolves, its text has a match and the match parses; otherwise
  the error that is raised, \<open>nomatch\<close> being the message of the error thrown when
  nothing matches (\<open>evaluate_cases\<close>, \<open>negotiateScores_cases\<close> and
  \<open>generateFinalDecision_cases\<close> below).\<close>

definition parsed_object :: "response \<Rightarrow> jsval option" where
  "parsed_object r =
     (case r of
        Rejects msg \<Rightarrow> None
      | Resolves responseText \<Rightarrow>
          (case regex_exec responseText of
             None \<Rightarrow> None
           | Some jsonMatch \<Rightarrow>
               (case JSON_parse jsonMatch of Inl e \<Rightarrow> None | Inr v \<Rightarrow> Some v)))"

definition invocation_error :: "string \<Rightarrow> response \<Rightarrow> js_error option" where
  "invocation_error nomatch r =
     (case r of
        Rejects msg \<Rightarrow> Some (Error msg)
      | Resolves responseText \<Rightarrow>
          (case regex_exec responseText of
             None \<Rightarrow> Some (Error nomatch)
           | Some jsonMatch \<Rightarrow>
               (case JSON_parse jsonMatch of Inl e \<Rightarrow> Some e | Inr v \<Rightarrow> None)))"

text \<open>The entry that an evaluator contributes to the evaluation set.\<close>

definition entry :: "(agent \<Rightarrow> response) \<Rightarrow> candidate \<Rightarrow> agent \<Rightarrow> jsval" where
  "entry R c a = (case fst (evaluate a (R a) c) of Inr v \<Rightarrow> v | Inl e \<Rightarrow> JUndefined)"

text \<open>The mean and the largest distance that \<open>avgScore\<close> and \<open>maxDiff\<close> compute when the
  three scores are the numbers \<open>a\<close>, \<open>b\<close> and \<open>c\<close> (\<open>avgScore_numbers\<close> and
  \<open>maxDiff_numbers\<close> below).\<close>

definition avgScore_of :: "rat \<Rightarrow> rat \<Rightarrow> rat \<Rightarrow> jsnum" where
  "avgScore_of a b c = num_div3 (num_add (num_add (Fin a) (Fin b)) (Fin c))"

definition maxDiff_of :: "rat \<Rightarrow> rat \<Rightarrow> rat \<Rightarrow> jsnum" where
  "maxDiff_of a b c =
     (let avg = avgScore_of a b c
      in Math_max (num_abs (num_sub (Fin a) avg)) (num_abs (num_sub (Fin b) avg))
           (num_abs (num_sub (Fin c) avg)))"

text \<open>The result of the negotiation step of a round, and what it makes of the object
  that the mediator returned: the object, unless its consensus score cannot be written
  to the log (\<open>negotiateScores_cases\<close> below).\<close>

definition negotiation_of :: "builtins \<Rightarrow> response \<Rightarrow> jsval \<Rightarrow> jsval" where
  "negotiation_of B r evaluations =
     (case fst (negotiateScores B r evaluations) of Inr v \<Rightarrow> v | Inl e \<Rightarrow> JNull)"

definition consensus_of :: "response \<Rightarrow> jsval" where
  "consensus_of r =
     (case parsed_object r of
        None \<Rightarrow> JNull
      | Some negotiation \<Rightarrow>
          if raises (get_opt negotiation ''consensus_score'') then JNull else negotiation)"

text \<open>A decision that has passed the two log lines of \<^verbatim>\<open>decideHiring\<close>: itself, or the
  fallback when writing it raises (\<open>decideHiring_with_decision\<close> below).\<close>

definition logged :: "jsval \<Rightarrow> jsval" where
  "logged decision =
     (case log_error decision of Some e \<Rightarrow> fallback (message e) | None \<Rightarrow> decision)"

text \<open>Step 3 of \<^verbatim>\<open>decideHiring\<close>, in parts: a decision is undecided when its outcome is
  \<^verbatim>\<open>MAYBE\<close> and the question it carries, if any, is falsy; the question that an
  invocation of the clarifier gives, if any; and a decision with the question attached
  and the sentence appended to its rationale (\<open>follow_up_rule\<close> below).\<close>

definition undecided :: "(jsstring \<times> jsval) list \<Rightarrow> bool" where
  "undecided kvs =
     (get_opt (JObject kvs) ''final_decision'' = JString (str ''MAYBE'')
      \<and> \<not> truthy (get_opt (JObject kvs) ''follow_up_question''))"

definition question_of :: "response \<Rightarrow> jsstring option" where
  "question_of r =
     (case r of
        Rejects msg \<Rightarrow> None
      | Resolves responseText \<Rightarrow>
          if trim responseText = [] then None else Some (str (trim responseText)))"

definition with_question :: "builtins \<Rightarrow> jsstring \<Rightarrow> (jsstring \<times> jsval) list \<Rightarrow> jsval" where
  "with_question B q kvs =
     JObject
       (AList.update (str ''reasoning'')
          (JString (ToString B (get_opt (JObject kvs) ''reasoning'')
                    @ str '' A follow-up question is recommended to clarify ambiguities.''))
          (AList.update (str ''follow_up_question'') (JString q) kvs))"

section \<open>Example rounds\<close>

text \<open>An evaluation as the prompts ask for it, an evaluation set, and the scenarios A
  (scores 8, 7, 8) and B (scores 9, 4, 8) of the specification. On numbers the two
  conversions that are parameters are never reached; \<open>some_builtins\<close> fixes them.\<close>

definition some_builtins :: builtins where
  "some_builtins = \<lparr>NumberToString = (\<lambda>r. []), StringToNumber = (\<lambda>s. NaN)\<rparr>"

definition evaluation_of :: "rat \<Rightarrow> string \<Rightarrow> jsval" where
  "evaluation_of score recommendation =
     JObject
       [(str ''score'', JNum (Fin score)),
        (str ''recommendation'', JString (str recommendation)),
        (str ''analysis'', JObject [])]"

definition evaluation_set :: "jsval \<Rightarrow> jsval \<Rightarrow> jsval \<Rightarrow> jsval" where
  "evaluation_set hrEval managerEval salesEval =
     JObject [(str ''hr'', hrEval), (str ''manager'', managerEval), (str ''sales'', salesEval)]"

definition scenario_A :: jsval where
  "scenario_A =
     evaluation_set (evaluation_of 8 ''YES'') (evaluation_of 7 ''YES'') (evaluation_of 8 ''YES'')"

definition scenario_B :: jsval where
  "scenario_B =
     evaluation_set (evaluation_of 9 ''STRONG_YES'') (evaluation_of 4 ''NO'') (evaluation_of 8 ''YES'')"

definition some_candidate :: candidate where
  "some_candidate =
     \<lparr>name = str ''Ada'', email = JString (str ''ada@example.com''),
      role_applying = JString (str ''Engineer''),
      cv_text = JString (str ''Ten years of compiler work.'')\<rparr>"

text \<open>A round in which the mediator and the judgment capabilities are down.\<close>

definition mediator_down :: capabilities where
  "mediator_down =
     \<lparr>evaluator = (\<lambda>a. Rejects ''unused''), mediator = Rejects ''socket hang up'',
      judge = Rejects ''quota'', clarifier = Rejects ''quota''\<rparr>"

text \<open>Scenario C: the manager evaluator times out, the other two answer.\<close>

definition scenario_C :: "agent \<Rightarrow> response" where
  \<open>scenario_C a =
     (case a of
        HR \<Rightarrow> Resolves ''{"score": 8, "analysis": {}}''
      | Manager \<Rightarrow> Rejects ''timeout''
      | Sales \<Rightarrow> Resolves ''I cannot evaluate this candidate.'')\<close>

text \<open>Rounds in which the judge answers outside the vocabulary and the range, and in
  which the judge is undecided and the clarifier answers with a blank, or with a
  question.\<close>

definition overconfident_judge :: capabilities where
  \<open>overconfident_judge =
     \<lparr>evaluator = (\<lambda>a. Rejects ''unused''), mediator = Rejects ''unused'',
      judge = Resolves ''{"final_decision": "PASS", "confidence_score": 95}'',
      clarifier = Rejects ''unused''\<rparr>\<close>

definition blank_clarifier :: capabilities where
  \<open>blank_clarifier =
     \<lparr>evaluator = (\<lambda>a. Rejects ''unused''), mediator = Rejects ''unused'',
      judge = Resolves
        ''{"final_decision": "MAYBE", "confidence_score": 0.5, "reasoning": "Unclear."}'',
      clarifier = Resolves '' ''\<rparr>\<close>

definition asking_clarifier :: capabilities where
  \<open>asking_clarifier =
     \<lparr>evaluator = (\<lambda>a. Rejects ''unused''), mediator = Rejects ''unused'',
      judge = Resolves
        ''{"final_decision": "MAYBE", "confidence_score": 0.5, "reasoning": "Unclear."}'',
      clarifier = Resolves '' Which project did you lead? ''\<rparr>\<close>

text \<open>A round in which the scores are 3.1, 5.2 and 7, and the doubles that these
  literals denote.\<close>

definition close_scores :: "agent \<Rightarrow> response" where
  \<open>close_scores a =
     (case a of
        HR \<Rightarrow> Resolves ''{"score": 3.1, "recommendation": "NO", "analysis": {}}''
      | Manager \<Rightarrow> Resolves ''{"score": 5.2, "recommendation": "MAYBE", "analysis": {}}''
      | Sales \<Rightarrow> Resolves ''{"score": 7, "recommendation": "YES", "analysis": {}}'')\<close>

definition double_3_1 :: rat where
  "double_3_1 = 6980579422424269 / 2 ^ 51"

definition double_5_2 :: rat where
  "double_5_2 = 5854679515581645 / 2 ^ 50"

definition scenario_D :: jsval where
  "scenario_D =
     evaluation_set (evaluation_of double_3_1 ''NO'') (evaluation_of double_5_2 ''MAYBE'')
       (evaluation_of 7 ''YES'')"

text \<open>Answers in which a value has a property \<^verbatim>\<open>toString\<close> of its own.\<close>

definition unwritable_score :: response where
  \<open>unwritable_score = Resolves ''{"score": {"toString": 1}, "recommendation": "YES"}''\<close>

definition unwritable_consensus :: response where
  \<open>unwritable_consensus = Resolves ''{"consensus_score": {"toString": 1}, "reasoning": "x"}''\<close>

section \<open>A parsed match is an object\<close>

lemma bottom_object_push:
  "bottom_object st \<Longrightarrow> bottom_object (f # st)"
  by (simp add: bottom_object_def)

lemma finish_bottom:
  assumes "bottom_object st" "finish v st = Some (st', e')"
  shows "bottom_object st'"
  using assms
  by (cases "(v, st)" rule: finish.cases) (auto simp: bottom_object_def split: if_splits)

lemma start_value_bottom:
  assumes "bottom_object st" "start_value t st = Some (st', e')"
  shows "bottom_object st'"
  using assms
  by (cases "(t, st)" rule: start_value.cases)
     (auto dest: finish_bottom simp: bottom_object_push)

lemma close_array_bottom:
  assumes "bottom_object st" "close_array st = Some (st', e')"
  shows "bottom_object st'"
proof (cases st rule: close_array.cases)
  case (1 xs st0)
  with assms(1) have "bottom_object st0"
    by (cases st0) (auto simp: bottom_object_def)
  with 1 assms(2) show ?thesis by (auto dest: finish_bottom)
qed (use assms in auto)

lemma close_object_bottom:
  assumes "bottom_object st" "close_object st = Some (st', e')"
  shows "bottom_object st' \<or> (st' = [] \<and> (\<exists>kvs. e' = Finished (JObject kvs)))"
proof (cases st rule: close_object.cases)
  case (1 kvs st0)
  show ?thesis
  proof (cases st0)
    case Nil
    with 1 assms(2) show ?thesis by auto
  next
    case (Cons f fs)
    with 1 assms(1) have "bottom_object st0" by (simp add: bottom_object_def)
    with 1 assms(2) show ?thesis by (auto dest: finish_bottom)
  qed
qed (use assms in auto)

lemma set_key_bottom:
  assumes "bottom_object st" "set_key k st = Some (st', e')"
  shows "bottom_object st'"
  using assms
  by (cases "(k, st)" rule: set_key.cases) (auto simp: bottom_object_def split: if_splits)

lemma after_comma_bottom:
  assumes "bottom_object st" "after_comma st = Some (st', e')"
  shows "bottom_object st'"
  using assms
  by (cases st rule: after_comma.cases) auto

lemma step_bottom:
  assumes "bottom_object st" "step t (st, e) = Some (st', e')"
  shows "bottom_object st' \<or> (st' = [] \<and> (\<exists>kvs. e' = Finished (JObject kvs)))"
proof (cases e)
  case Value
  with assms show ?thesis by (auto dest: start_value_bottom)
next
  case ValueOrClose
  with assms show ?thesis
    by (auto dest: start_value_bottom close_array_bottom split: if_splits)
next
  case Key
  with assms show ?thesis by (auto dest: set_key_bottom split: token.splits)
next
  case KeyOrClose
  with assms show ?thesis
    using close_object_bottom [of st st' e']
    by (auto dest: set_key_bottom split: token.splits)
next
  case KeyColon
  with assms show ?thesis by (auto split: if_splits)
next
  case CommaOrClose
  with assms show ?thesis
    using close_object_bottom [of st st' e']
    by (auto dest: after_comma_bottom close_array_bottom split: token.splits)
next
  case (Finished v)
  with assms show ?thesis by simp
qed

lemma run_finished:
  "run ts ([], Finished v) = Some w \<Longrightarrow> w = v"
  by (cases ts) auto

lemma run_bottom:
  "bottom_object st \<Longrightarrow> run ts (st, e) = Some v \<Longrightarrow> \<exists>kvs. v = JObject kvs"
proof (induction ts arbitrary: st e)
  case Nil
  then show ?case by (auto simp: bottom_object_def split: expect.splits if_splits)
next
  case (Cons t ts)
  from Cons.prems(2) obtain st' e' where
    s: "step t (st, e) = Some (st', e')" and r: "run ts (st', e') = Some v"
    by (auto split: option.splits)
  from step_bottom [OF Cons.prems(1) s] show ?case
  proof
    assume "bottom_object st'"
    from Cons.IH [OF this r] show ?thesis .
  next
    assume "st' = [] \<and> (\<exists>kvs. e' = Finished (JObject kvs))"
    with r show ?thesis by (auto dest: run_finished)
  qed
qed

lemma lex_open_brace:
  "lex (CHR ''{'' # cs) = Some ts \<Longrightarrow> \<exists>ts'. ts = LBrace # ts'"
  by (auto simp: is_ws_def)

lemma JSON_parse_open_brace:
  assumes "JSON_parse (CHR ''{'' # cs) = Inr v"
  shows "\<exists>kvs. v = JObject kvs"
proof -
  from assms obtain ts where l: "lex (CHR ''{'' # cs) = Some ts" and r: "run ts ([], Value) = Some v"
    by (auto simp: JSON_parse_def split: option.splits)
  from lex_open_brace [OF l] obtain ts' where ts: "ts = LBrace # ts'" by blast
  with r have "run ts' ([InObject [] None], KeyOrClose) = Some v" by simp
  moreover have "bottom_object [InObject [] None]" by (simp add: bottom_object_def)
  ultimately show ?thesis by (rule run_bottom [rotated])
qed

lemma regex_exec_shape:
  assumes "regex_exec text = Some m"
  shows "\<exists>pre mid post. text = pre @ m @ post \<and> m = CHR ''{'' # mid \<and> last m = CHR ''}''
           \<and> CHR ''{'' \<notin> set pre \<and> CHR ''}'' \<notin> set post"
proof -
  define P where "P = (\<lambda>c. c \<noteq> CHR ''{'')"
  define Q where "Q = (\<lambda>c. c \<noteq> CHR ''}'')"
  define from_open where "from_open = dropWhile P text"
  have m: "m = rev (dropWhile Q (rev from_open))" and ne: "m \<noteq> []"
    using assms by (auto simp: regex_exec_def Let_def P_def Q_def from_open_def split: if_splits)
  define post where "post = rev (takeWhile Q (rev from_open))"
  define pre where "pre = takeWhile P text"
  have "from_open = rev (takeWhile Q (rev from_open) @ dropWhile Q (rev from_open))"
    by (simp only: takeWhile_dropWhile_id rev_rev_ident)
  then have fo: "from_open = m @ post"
    by (simp only: rev_append m post_def)
  have "text = pre @ from_open"
    by (simp add: pre_def from_open_def)
  with fo have whole: "text = pre @ m @ post"
    by simp
  have pre: "CHR ''{'' \<notin> set pre"
    using set_takeWhileD [of "CHR ''{''" P "text"] by (auto simp: pre_def P_def)
  have post: "CHR ''}'' \<notin> set post"
    using set_takeWhileD [of "CHR ''}''" Q "rev from_open"] by (auto simp: post_def Q_def)
  from ne fo have "from_open \<noteq> []" by auto
  then have "\<not> P (hd from_open)" unfolding from_open_def by (rule hd_dropWhile)
  then have "hd from_open = CHR ''{''" by (simp add: P_def)
  with ne fo have hd: "hd m = CHR ''{''" by (cases m) auto
  from ne m have "dropWhile Q (rev from_open) \<noteq> []" by auto
  then have "\<not> Q (hd (dropWhile Q (rev from_open)))" by (rule hd_dropWhile)
  then have "hd (dropWhile Q (rev from_open)) = CHR ''}''" by (simp add: Q_def)
  with ne m have last: "last m = CHR ''}''"
    by (metis last_rev rev_is_Nil_conv rev_rev_ident)
  from ne hd obtain mid where "m = CHR ''{'' # mid" by (cases m) auto
  with whole last pre post show ?thesis by blast
qed

lemma matched_parse_is_object:
  assumes "regex_exec text = Some m" "JSON_parse m = Inr v"
  shows "\<exists>kvs. v = JObject kvs"
proof -
  from regex_exec_shape [OF assms(1)] obtain mid where "m = CHR ''{'' # mid" by blast
  with assms(2) show ?thesis by (auto dest: JSON_parse_open_brace)
qed

section \<open>Doubles on the scale of the scores\<close>

lemma small_integers_table:
  "list_all (\<lambda>n. round_double (of_nat n) = Fin (of_nat n)) [0..<31]"
  by code_simp

lemma round_double_of_nat:
  assumes "n \<le> 30"
  shows "round_double (of_nat n) = Fin (of_nat n)"
proof -
  from assms have "n \<in> set [0..<31]" unfolding set_upt by simp
  with small_integers_table show ?thesis unfolding list_all_iff by blast
qed

lemma deviations_table:
  "list_all
     (\<lambda>s. case round_double (of_nat s / 3) of
             Fin v \<Rightarrow>
               list_all
                 (\<lambda>x. case round_double (of_nat x - v) of
                         Fin d \<Rightarrow> (2 < \<bar>d\<bar>) = (2 < \<bar>of_nat x - of_nat s / 3 :: rat\<bar>)
                       | _ \<Rightarrow> False)
                 [1..<11]
           | _ \<Rightarrow> False)
     [3..<31]"
  by code_simp

lemma deviation_rounded:
  assumes "3 \<le> s" "s \<le> 30"
  shows "\<exists>v. round_double (of_nat s / 3) = Fin v
           \<and> (\<forall>x. 1 \<le> x \<and> x \<le> 10 \<longrightarrow>
                 (\<exists>d. round_double (of_nat x - v) = Fin d
                      \<and> (2 < \<bar>d\<bar>) = (2 < \<bar>of_nat x - of_nat s / 3 :: rat\<bar>)))"
proof -
  from assms have "s \<in> set [3..<31]" unfolding set_upt by simp
  with deviations_table have
    "case round_double (of_nat s / 3) of
             Fin v \<Rightarrow>
               list_all
                 (\<lambda>x. case round_double (of_nat x - v) of
                         Fin d \<Rightarrow> (2 < \<bar>d\<bar>) = (2 < \<bar>of_nat x - of_nat s / 3 :: rat\<bar>)
                       | _ \<Rightarrow> False)
                 [1..<11]
           | _ \<Rightarrow> False"
    unfolding list_all_iff by blast
  then obtain v where v: "round_double (of_nat s / 3) = Fin v"
    and row: "list_all
                 (\<lambda>x. case round_double (of_nat x - v) of
                         Fin d \<Rightarrow> (2 < \<bar>d\<bar>) = (2 < \<bar>of_nat x - of_nat s / 3 :: rat\<bar>)
                       | _ \<Rightarrow> False)
                 [1..<11]"
    by (auto split: jsnum.splits)
  have "\<exists>d. round_double (of_nat x - v) = Fin d
           \<and> (2 < \<bar>d\<bar>) = (2 < \<bar>of_nat x - of_nat s / 3 :: rat\<bar>)"
    if "1 \<le> x" "x \<le> 10" for x :: nat
  proof -
    from that have "x \<in> set [1..<11]" unfolding set_upt by simp
    with row have "case round_double (of_nat x - v) of
                         Fin d \<Rightarrow> (2 < \<bar>d\<bar>) = (2 < \<bar>of_nat x - of_nat s / 3 :: rat\<bar>)
                       | _ \<Rightarrow> False"
      unfolding list_all_iff by blast
    then show ?thesis by (auto split: jsnum.splits)
  qed
  with v show ?thesis by blast
qed

section \<open>The discrepancy detector and the mediator\<close>

lemma convert_error_number:
  "convert_error (JNum n) = None"
  by (simp add: convert_error_def)

lemma convert_error_string:
  "convert_error (JString s) = None"
  by (simp add: convert_error_def)

lemma written_error_object:
  "written_error (JObject kvs) k = convert_error (get_opt (JObject kvs) k)"
  by (simp add: written_error_def)

lemma js_plus_numbers:
  "js_plus B (JNum x) (JNum y) = Inr (JNum (num_add x y))"
  by (simp add: js_plus_def convert_error_number)

lemma js_minus_numbers:
  "js_minus B (JNum x) (JNum y) = Inr (num_sub x y)"
  by (simp add: js_minus_def convert_error_number)

lemma js_div3_number:
  "js_div3 B (JNum x) = Inr (num_div3 x)"
  by (simp add: js_div3_def convert_error_number)

lemma avgScore_numbers:
  assumes "has_scores evaluations a b c"
  shows "avgScore B evaluations = Inr (avgScore_of a b c)"
  using assms
  by (simp add: has_scores_def avgScore_def avgScore_of_def js_plus_numbers js_div3_number)

lemma maxDiff_numbers:
  assumes "has_scores evaluations a b c"
  shows "maxDiff B evaluations (avgScore_of a b c) = Inr (maxDiff_of a b c)"
  using assms
  by (simp add: has_scores_def maxDiff_def maxDiff_of_def distance_def js_minus_numbers Let_def)

lemma num_max_finite:
  "num_max (Fin x) (Fin y) = Fin (max x y)"
  by (simp add: num_max_def max_def)

lemma Math_max_finite:
  "Math_max (Fin x) (Fin y) (Fin z) = Fin (max (max x y) z)"
  by (simp add: Math_max_def num_max_finite)

lemma maxDeviation_exceeds:
  "threshold < maxDeviation a b c
     \<longleftrightarrow> 2 < \<bar>a - (a + b + c) / 3\<bar> \<or> 2 < \<bar>b - (a + b + c) / 3\<bar> \<or> 2 < \<bar>c - (a + b + c) / 3\<bar>"
proof -
  have "Max {x, y, z} = max (max x y) z" for x y z :: rat
    by (simp add: max.assoc)
  then show ?thesis
    by (simp add: maxDeviation_def mean3_def threshold_def less_max_iff_disj)
qed

text \<open>On integer scores from 1 to 10 the rounding of the doubles does not move the
  comparison with the threshold.\<close>

lemma maxDiff_of_integers:
  fixes i j k :: nat
  assumes "1 \<le> i" "i \<le> 10" "1 \<le> j" "j \<le> 10" "1 \<le> k" "k \<le> 10"
  shows "num_gt (maxDiff_of (of_nat i) (of_nat j) (of_nat k)) (Fin 2)
           \<longleftrightarrow> threshold < maxDeviation (of_nat i) (of_nat j) (of_nat k)"
proof -
  define s where "s = i + j + k"
  have ij: "num_add (Fin (of_nat i)) (Fin (of_nat j)) = Fin (of_nat (i + j))"
    using round_double_of_nat [of "i + j"] assms by simp
  have sum: "num_add (Fin (of_nat (i + j))) (Fin (of_nat k)) = Fin (of_nat s)"
    using round_double_of_nat [of s] assms by (simp add: s_def)
  have "3 \<le> s" "s \<le> 30" using assms by (simp_all add: s_def)
  from deviation_rounded [OF this] obtain v where
    v: "round_double (of_nat s / 3) = Fin v" and
    row: "\<And>x. 1 \<le> x \<Longrightarrow> x \<le> 10 \<Longrightarrow>
            \<exists>d. round_double (of_nat x - v) = Fin d
               \<and> (2 < \<bar>d\<bar>) = (2 < \<bar>of_nat x - of_nat s / 3 :: rat\<bar>)"
    by blast
  have avg: "avgScore_of (of_nat i) (of_nat j) (of_nat k) = Fin v"
    by (simp only: avgScore_of_def ij sum num_div3.simps v)
  from row [of i] assms obtain di where
    di: "round_double (of_nat i - v) = Fin di" "(2 < \<bar>di\<bar>) = (2 < \<bar>of_nat i - of_nat s / 3 :: rat\<bar>)"
    by blast
  from row [of j] assms obtain dj where
    dj: "round_double (of_nat j - v) = Fin dj" "(2 < \<bar>dj\<bar>) = (2 < \<bar>of_nat j - of_nat s / 3 :: rat\<bar>)"
    by blast
  from row [of k] assms obtain dk where
    dk: "round_double (of_nat k - v) = Fin dk" "(2 < \<bar>dk\<bar>) = (2 < \<bar>of_nat k - of_nat s / 3 :: rat\<bar>)"
    by blast
  have sub: "num_sub (Fin x) (Fin v) = round_double (x - v)" for x
    by (simp add: num_sub_def)
  have "maxDiff_of (of_nat i) (of_nat j) (of_nat k) = Fin (max (max \<bar>di\<bar> \<bar>dj\<bar>) \<bar>dk\<bar>)"
    by (simp add: maxDiff_of_def avg sub di(1) dj(1) dk(1) Math_max_finite)
  then have "num_gt (maxDiff_of (of_nat i) (of_nat j) (of_nat k)) (Fin 2)
               \<longleftrightarrow> 2 < \<bar>di\<bar> \<or> 2 < \<bar>dj\<bar> \<or> 2 < \<bar>dk\<bar>"
    by (simp add: less_max_iff_disj)
  also have "\<dots> \<longleftrightarrow> threshold < maxDeviation (of_nat i) (of_nat j) (of_nat k)"
    by (simp only: di(2) dj(2) dk(2) maxDeviation_exceeds s_def of_nat_add)
  finally show ?thesis .
qed

text \<open>Whatever the input, \<^verbatim>\<open>negotiateScores\<close> returns \<^verbatim>\<open>null\<close> without an invocation, or
  it has invoked the mediator once and returns what it makes of the answer.\<close>

lemma parsed_object_is_object:
  "parsed_object r = Some v \<Longrightarrow> \<exists>kvs. v = JObject kvs"
  by (auto simp: parsed_object_def dest: matched_parse_is_object
      split: response.splits option.splits sum.splits)

lemma mediated:
  "(case r of
      Rejects msg \<Rightarrow> (Inr JNull, [MediatorCall evaluations])
    | Resolves responseText \<Rightarrow>
        (case regex_exec responseText of
           Some jsonMatch \<Rightarrow>
             (case JSON_parse jsonMatch of
                Inl e \<Rightarrow> (Inr JNull, [MediatorCall evaluations])
              | Inr negotiation \<Rightarrow>
                  (case written_error negotiation ''consensus_score'' of
                     Some e \<Rightarrow> (Inr JNull, [MediatorCall evaluations])
                   | None \<Rightarrow> (Inr negotiation, [MediatorCall evaluations])))
         | None \<Rightarrow> (Inr JNull, [MediatorCall evaluations])))
   = (Inr (consensus_of r), [MediatorCall evaluations])"
proof (cases "parsed_object r")
  case None
  then show ?thesis
    by (auto simp: parsed_object_def consensus_of_def
        split: response.splits option.splits sum.splits)
next
  case (Some v)
  then obtain kvs where v: "v = JObject kvs"
    using parsed_object_is_object by blast
  from Some obtain responseText jsonMatch where
    "r = Resolves responseText" "regex_exec responseText = Some jsonMatch"
    "JSON_parse jsonMatch = Inr v"
    by (auto simp: parsed_object_def split: response.splits option.splits sum.splits)
  with Some v show ?thesis
    by (simp add: consensus_of_def written_error_object convert_error_def conversion_error_def)
qed

lemma negotiateScores_cases:
  "negotiateScores B r evaluations =
     (case avgScore B evaluations of
        Inl e \<Rightarrow> (Inr JNull, [])
      | Inr avg \<Rightarrow>
          (case maxDiff B evaluations avg of
             Inl e \<Rightarrow> (Inr JNull, [])
           | Inr d \<Rightarrow>
               if num_gt d (Fin 2) \<and> negotiationPrompt_error evaluations = None
               then (Inr (consensus_of r), [MediatorCall evaluations])
               else (Inr JNull, [])))"
proof -
  have "negotiateScores B r evaluations =
     (case avgScore B evaluations of
        Inl e \<Rightarrow> (Inr JNull, [])
      | Inr avg \<Rightarrow>
          (case maxDiff B evaluations avg of
             Inl e \<Rightarrow> (Inr JNull, [])
           | Inr d \<Rightarrow>
               if num_gt d (Fin 2) \<and> negotiationPrompt_error evaluations = None
               then
                 (case r of
                    Rejects msg \<Rightarrow> (Inr JNull, [MediatorCall evaluations])
                  | Resolves responseText \<Rightarrow>
                      (case regex_exec responseText of
                         Some jsonMatch \<Rightarrow>
                           (case JSON_parse jsonMatch of
                              Inl e \<Rightarrow> (Inr JNull, [MediatorCall evaluations])
                            | Inr negotiation \<Rightarrow>
                                (case written_error negotiation ''consensus_score'' of
                                   Some e \<Rightarrow> (Inr JNull, [MediatorCall evaluations])
                                 | None \<Rightarrow> (Inr negotiation, [MediatorCall evaluations])))
                       | None \<Rightarrow> (Inr JNull, [MediatorCall evaluations])))
               else (Inr JNull, [])))"
    by (simp add: negotiateScores_def negotiateScores_try_def
        split: sum.split option.split response.split)
  then show ?thesis by (simp only: mediated)
qed

lemma negotiateScores_gemini_cases:
  "negotiateScores_gemini B r evaluations = negotiateScores B r evaluations"
  by (simp add: negotiateScores_gemini_def negotiateScores_def
      negotiateScores_gemini_try_def negotiateScores_try_def
      split: sum.split response.split option.split)

lemma negotiateScores_shape:
  "negotiateScores B r evaluations = (Inr JNull, [])
   \<or> negotiateScores B r evaluations = (Inr (consensus_of r), [MediatorCall evaluations])"
  by (simp add: negotiateScores_cases split: sum.split)

lemma negotiateScores_numbers:
  assumes "has_scores evaluations a b c"
  shows "negotiateScores B r evaluations =
     (if num_gt (maxDiff_of a b c) (Fin 2) \<and> negotiationPrompt_error evaluations = None
      then (Inr (consensus_of r), [MediatorCall evaluations])
      else (Inr JNull, []))"
  by (simp add: negotiateScores_cases avgScore_numbers [OF assms] maxDiff_numbers [OF assms])

lemma negotiation_of_cases:
  "negotiation_of B r evaluations = JNull
   \<or> negotiation_of B r evaluations = consensus_of r"
  using negotiateScores_shape [of B r evaluations]
  by (auto simp: negotiation_of_def)

section \<open>The steps of a decision\<close>

lemma first_error_two:
  "first_error [x, y] = None \<longleftrightarrow> x = None \<and> y = None"
  by (cases x; cases y) simp_all

lemma generateFinalDecision_cases:
  "generateFinalDecision r evaluations n =
     (if prompt_error evaluations = None \<and> consensus_error n = None
      then (Inr (case parsed_object r of Some d \<Rightarrow> d | None \<Rightarrow> JNull),
            [JudgeCall evaluations n])
      else (Inr JNull, []))"
proof (cases "first_error [prompt_error evaluations, consensus_error n]")
  case None
  then have "prompt_error evaluations = None \<and> consensus_error n = None"
    by (simp only: first_error_two)
  with None show ?thesis
    by (simp add: generateFinalDecision_def generateFinalDecision_try_def parsed_object_def
        split: option.split response.split sum.split)
next
  case (Some e)
  then have "\<not> (prompt_error evaluations = None \<and> consensus_error n = None)"
    using first_error_two [of "prompt_error evaluations" "consensus_error n"] by simp
  with Some show ?thesis
    by (simp add: generateFinalDecision_def generateFinalDecision_try_def)
qed

lemma generateFollowUpQuestion_cases:
  "generateFollowUpQuestion r evaluations =
     (if prompt_error evaluations = None
      then (Inr (case r of Resolves responseText \<Rightarrow> JString (str (trim responseText))
                 | Rejects msg \<Rightarrow> JNull), [ClarifierCall evaluations])
      else (Inr JNull, []))"
  by (simp add: generateFollowUpQuestion_def generateFollowUpQuestion_try_def
      split: option.split response.split)

lemma str_eq_iff:
  "str s = str t \<longleftrightarrow> s = t"
proof -
  have "inj (of_char :: char \<Rightarrow> nat)" by (rule inj_of_char)
  then show ?thesis unfolding str_def by (rule inj_map_eq_map)
qed

lemma str_eq_Nil:
  "str s = [] \<longleftrightarrow> s = []"
  by (simp add: str_def)

lemma get_opt_update_other:
  "k \<noteq> k' \<Longrightarrow> get_opt (JObject (AList.update (str k') v kvs)) k = get_opt (JObject kvs) k"
  by (simp add: update_conv' str_eq_iff)

lemma get_opt_update_same:
  "get_opt (JObject (AList.update (str k) v kvs)) k = v"
  by (simp add: update_conv')

lemma ToString_ToPrimitive:
  "ToString B (ToPrimitive B v) = ToString B v"
  by (cases v) simp_all

lemma js_plus_string:
  "js_plus B v (JString s) =
     (if raises v then Inl conversion_error else Inr (JString (ToString B v @ s)))"
  by (simp add: js_plus_def Let_def ToString_ToPrimitive convert_error_def)

text \<open>Step 3, when the prompt of the clarifier can be built.\<close>

lemma follow_up_rule:
  assumes "prompt_error evaluations = None"
  shows "follow_up B r evaluations kvs =
     (if undecided kvs then
        (case question_of r of
           Some q \<Rightarrow>
             if raises (get_opt (JObject kvs) ''reasoning'') then Inl conversion_error
             else Inr (with_question B q kvs)
         | None \<Rightarrow> Inr (JObject kvs),
         [ClarifierCall evaluations])
      else (Inr (JObject kvs), []))"
proof (cases "undecided kvs")
  case False
  then show ?thesis
    by (simp add: follow_up_def undecided_def [symmetric] Let_def del: get_opt.simps)
next
  case True
  have other: "get_opt (JObject (AList.update (str ''follow_up_question'') v kvs)) ''reasoning''
                 = get_opt (JObject kvs) ''reasoning''" for v
    by (rule get_opt_update_other) simp
  show ?thesis
  proof (cases r)
    case (Rejects msg)
    with True assms show ?thesis
      by (simp add: follow_up_def undecided_def [symmetric] Let_def generateFollowUpQuestion_cases
          question_of_def del: get_opt.simps)
  next
    case (Resolves responseText)
    with True assms other show ?thesis
      by (simp add: follow_up_def undecided_def [symmetric] Let_def generateFollowUpQuestion_cases
          question_of_def with_question_def js_plus_string str_eq_Nil
          del: get_opt.simps)
  qed
qed

lemma with_question_fields:
  "get_opt (with_question B q kvs) ''follow_up_question'' = JString q"
  "get_opt (with_question B q kvs) ''reasoning''
     = JString (ToString B (get_opt (JObject kvs) ''reasoning'')
                @ str '' A follow-up question is recommended to clarify ambiguities.'')"
  "get_opt (with_question B q kvs) ''final_decision'' = get_opt (JObject kvs) ''final_decision''"
  "get_opt (with_question B q kvs) ''confidence_score'' = get_opt (JObject kvs) ''confidence_score''"
  by (simp_all add: with_question_def update_conv' str_def)

lemma log_error_object:
  "log_error (JObject kvs) = None
     \<longleftrightarrow> \<not> raises (get_opt (JObject kvs) ''final_decision'')
         \<and> \<not> raises (get_opt (JObject kvs) ''confidence_score'')"
  by (simp add: log_error_def first_error_two written_error_object convert_error_def
      del: get_opt.simps)

lemma log_error_with_question:
  "log_error (with_question B q kvs) = log_error (JObject kvs)"
proof -
  obtain kvs' where w: "with_question B q kvs = JObject kvs'"
    by (simp add: with_question_def)
  have "get_opt (JObject kvs') ''final_decision'' = get_opt (JObject kvs) ''final_decision''"
    "get_opt (JObject kvs') ''confidence_score'' = get_opt (JObject kvs) ''confidence_score''"
    using with_question_fields(3,4) [of B q kvs] unfolding w by simp_all
  then show ?thesis
    unfolding w by (simp add: log_error_def written_error_object del: get_opt.simps)
qed

lemma logged_fields:
  "log_error d = None \<Longrightarrow> logged d = d"
  "log_error d \<noteq> None \<Longrightarrow> \<exists>cause. logged d = fallback cause"
  by (auto simp: logged_def)

lemma fallback_fields:
  "get_opt (fallback cause) ''final_decision'' = JString (str ''MAYBE'')"
  "get_opt (fallback cause) ''confidence_score'' = JNum (Fin (1 / 2))"
  "get_opt (fallback cause) ''reasoning''
     = JString (str ''Decision could not be fully evaluated. Recommend manual review.'')"
  "get_opt (fallback cause) ''details'' = JObject []"
  by (simp_all add: fallback_def str_def)

lemma decideHiring_fulfilled:
  "\<exists>d. fst (decideHiring B caps evaluations) = Inr d"
  by (cases "decideHiring_try B caps evaluations")
     (auto simp: decideHiring_def split: sum.splits)

lemma negotiateScores_fulfilled:
  "negotiateScores B r evaluations
     = (Inr (negotiation_of B r evaluations), snd (negotiateScores B r evaluations))"
  using negotiateScores_shape [of B r evaluations]
  by (auto simp: negotiation_of_def)

text \<open>A round of \<^verbatim>\<open>decideHiring\<close>, step by step.\<close>

lemma decideHiring_without_prompt:
  assumes "\<not> (prompt_error evaluations = None
              \<and> consensus_error (negotiation_of B (mediator caps) evaluations) = None)"
  shows "decideHiring B caps evaluations =
     (Inr (fallback ''Cannot read properties of null (reading final_decision)''),
      snd (negotiateScores B (mediator caps) evaluations))"
  by (subst decideHiring_def, subst decideHiring_try_def,
      subst negotiateScores_fulfilled)
     (simp add: generateFinalDecision_cases assms)

lemma decideHiring_without_object:
  assumes "prompt_error evaluations = None"
    "consensus_error (negotiation_of B (mediator caps) evaluations) = None"
    "parsed_object (judge caps) = None"
  shows "decideHiring B caps evaluations =
     (Inr (fallback ''Cannot read properties of null (reading final_decision)''),
      snd (negotiateScores B (mediator caps) evaluations)
        @ [JudgeCall evaluations (negotiation_of B (mediator caps) evaluations)])"
  using assms
  by (subst decideHiring_def, subst decideHiring_try_def,
      subst negotiateScores_fulfilled)
     (simp add: generateFinalDecision_cases)

lemma decideHiring_without_decision:
  assumes "parsed_object (judge caps) = None"
  shows "fst (decideHiring B caps evaluations)
           = Inr (fallback ''Cannot read properties of null (reading final_decision)'')"
proof (cases "prompt_error evaluations = None
              \<and> consensus_error (negotiation_of B (mediator caps) evaluations) = None")
  case True
  with assms show ?thesis by (simp add: decideHiring_without_object)
next
  case False
  from decideHiring_without_prompt [OF this] show ?thesis by simp
qed

lemma decideHiring_with_decision:
  assumes "prompt_error evaluations = None"
    "consensus_error (negotiation_of B (mediator caps) evaluations) = None"
    "parsed_object (judge caps) = Some (JObject kvs)"
  shows "decideHiring B caps evaluations =
     (if undecided kvs then
        (Inr (case question_of (clarifier caps) of
                Some q \<Rightarrow>
                  if raises (get_opt (JObject kvs) ''reasoning'')
                  then fallback (message conversion_error)
                  else logged (with_question B q kvs)
              | None \<Rightarrow> logged (JObject kvs)),
         snd (negotiateScores B (mediator caps) evaluations)
           @ [JudgeCall evaluations (negotiation_of B (mediator caps) evaluations),
              ClarifierCall evaluations])
      else
        (Inr (logged (JObject kvs)),
         snd (negotiateScores B (mediator caps) evaluations)
           @ [JudgeCall evaluations (negotiation_of B (mediator caps) evaluations)]))"
  using assms
  by (subst decideHiring_def, subst decideHiring_try_def,
      subst negotiateScores_fulfilled)
     (simp add: generateFinalDecision_cases follow_up_rule logged_def
        split: option.split)

section \<open>The example rounds\<close>

lemma has_scores_evaluation_set:
  "has_scores (evaluation_set (evaluation_of a ra) (evaluation_of b rb) (evaluation_of c rc)) a b c"
  by (simp add: has_scores_def score_of_def evaluation_set_def evaluation_of_def str_def)

lemma prompts_of_evaluation_set:
  "prompt_error (evaluation_set (evaluation_of a ra) (evaluation_of b rb) (evaluation_of c rc))
     = None"
  "negotiationPrompt_error
     (evaluation_set (evaluation_of a ra) (evaluation_of b rb) (evaluation_of c rc)) = None"
  by (simp_all add: prompt_error_def insight_error_def negotiationPrompt_error_def
      report_error_def written_error_def convert_error_def evaluation_set_def
      evaluation_of_def str_def)

lemma scenario_A_agrees:
  "\<not> num_gt (maxDiff_of 8 7 8) (Fin 2)"
  by code_simp

lemma scenario_B_differs:
  "num_gt (maxDiff_of 9 4 8) (Fin 2)"
  by code_simp

lemma scenario_D_differs:
  "num_gt (maxDiff_of double_3_1 double_5_2 7) (Fin 2)"
  by code_simp

lemma scenario_D_exact:
  "maxDeviation double_3_1 double_5_2 7 = 2"
  by code_simp

lemma scenario_A_negotiation:
  "negotiateScores B r scenario_A = (Inr JNull, [])"
  unfolding scenario_A_def
  by (simp add: negotiateScores_numbers [OF has_scores_evaluation_set] scenario_A_agrees)

lemma scenario_B_negotiation:
  "negotiateScores B r scenario_B = (Inr (consensus_of r), [MediatorCall scenario_B])"
  unfolding scenario_B_def
  by (simp add: negotiateScores_numbers [OF has_scores_evaluation_set] scenario_B_differs
      prompts_of_evaluation_set)

lemma scenario_D_negotiation:
  "negotiateScores B r scenario_D = (Inr (consensus_of r), [MediatorCall scenario_D])"
  unfolding scenario_D_def
  by (simp add: negotiateScores_numbers [OF has_scores_evaluation_set] scenario_D_differs
      prompts_of_evaluation_set)

lemma close_scores_evaluations:
  "fst (evaluateCandidate close_scores [0, 1, 2] some_candidate) = Fulfilled scenario_D"
  by code_simp

section \<open>A round invokes the mediator at most once\<close>

lemma judge_is_called:
  assumes "prompt_error evaluations = None"
    "consensus_error (negotiation_of B (mediator caps) evaluations) = None"
  shows "\<exists>calls3. snd (decideHiring B caps evaluations)
           = snd (negotiateScores B (mediator caps) evaluations)
               @ JudgeCall evaluations (negotiation_of B (mediator caps) evaluations) # calls3
         \<and> (calls3 = [] \<or> calls3 = [ClarifierCall evaluations])"
proof (cases "parsed_object (judge caps)")
  case None
  with assms show ?thesis by (simp add: decideHiring_without_object)
next
  case (Some d)
  then obtain kvs where "d = JObject kvs"
    using parsed_object_is_object by blast
  with assms Some show ?thesis by (simp add: decideHiring_with_decision)
qed

lemma decideHiring_calls:
  "\<exists>rest. snd (decideHiring B caps evaluations)
       = snd (negotiateScores B (mediator caps) evaluations) @ rest
     \<and> (\<forall>ev. MediatorCall ev \<notin> set rest)"
proof (cases "prompt_error evaluations = None
              \<and> consensus_error (negotiation_of B (mediator caps) evaluations) = None")
  case True
  then have "prompt_error evaluations = None"
    "consensus_error (negotiation_of B (mediator caps) evaluations) = None"
    by simp_all
  from judge_is_called [OF this] obtain calls3 where
    "snd (decideHiring B caps evaluations)
           = snd (negotiateScores B (mediator caps) evaluations)
               @ JudgeCall evaluations (negotiation_of B (mediator caps) evaluations) # calls3"
    "calls3 = [] \<or> calls3 = [ClarifierCall evaluations]"
    by blast
  then show ?thesis by auto
next
  case False
  from decideHiring_without_prompt [OF this] show ?thesis by simp
qed

text \<open>
  Claim C1, as stated, fails: the deviation is computed in the arithmetic of doubles.
  The evaluators answer with the scores 3.1, 5.2 and 7. The largest deviation of the
  three doubles from their mean is exactly 2, which does not exceed the threshold; the
  rounded sum, mean and difference give a distance above 2, and the mediator is invoked.
\<close>

theorem rounding_crosses_threshold:
  "fst (evaluateCandidate close_scores [0, 1, 2] some_candidate) = Fulfilled scenario_D
   \<and> has_scores scenario_D double_3_1 double_5_2 7
   \<and> maxDeviation double_3_1 double_5_2 7 = 2
   \<and> \<not> threshold < maxDeviation double_3_1 double_5_2 7
   \<and> snd (negotiateScores some_builtins (Rejects ''timeout'') scenario_D)
       = [MediatorCall scenario_D]"
proof (intro conjI)
  show "fst (evaluateCandidate close_scores [0, 1, 2] some_candidate) = Fulfilled scenario_D"
    by (rule close_scores_evaluations)
  show "has_scores scenario_D double_3_1 double_5_2 7"
    unfolding scenario_D_def by (rule has_scores_evaluation_set)
  show "maxDeviation double_3_1 double_5_2 7 = 2"
    by (rule scenario_D_exact)
  show "\<not> threshold < maxDeviation double_3_1 double_5_2 7"
    by (simp add: scenario_D_exact threshold_def)
  show "snd (negotiateScores some_builtins (Rejects ''timeout'') scenario_D)
       = [MediatorCall scenario_D]"
    by (simp add: scenario_D_negotiation)
qed

text \<open>
  Claim C1, amended. On an evaluation set with three numeric scores, \<^verbatim>\<open>negotiateScores\<close>
  invokes the mediator exactly when the largest distance of a score from the mean, as
  computed in the arithmetic of doubles, is greater than 2 and the three
  recommendations can be written into the prompt: once if so, never otherwise. A whole
  round of \<^verbatim>\<open>decideHiring\<close> invokes the mediator as often, and with that evaluation set.
  When the scores are integers from 1 to 10, the computed distance is greater than 2
  exactly when the largest absolute deviation from the arithmetic mean exceeds the
  threshold.
\<close>

theorem mediator_iff_discrepancy:
  assumes "has_scores evaluations a b c"
  shows "snd (negotiateScores B r evaluations)
           = (if num_gt (maxDiff_of a b c) (Fin 2) \<and> negotiationPrompt_error evaluations = None
              then [MediatorCall evaluations] else [])
       \<and> count_list (snd (decideHiring B caps evaluations)) (MediatorCall evaluations)
           = (if num_gt (maxDiff_of a b c) (Fin 2) \<and> negotiationPrompt_error evaluations = None
              then 1 else 0)
       \<and> (\<forall>ev. MediatorCall ev \<in> set (snd (decideHiring B caps evaluations))
              \<longrightarrow> ev = evaluations)
       \<and> (\<forall>i j k. a = of_nat i \<and> b = of_nat j \<and> c = of_nat k
              \<and> 1 \<le> i \<and> i \<le> 10 \<and> 1 \<le> j \<and> j \<le> 10 \<and> 1 \<le> k \<and> k \<le> 10
              \<longrightarrow> num_gt (maxDiff_of a b c) (Fin 2) = (threshold < maxDeviation a b c))"
proof (intro conjI allI impI)
  show calls: "snd (negotiateScores B r evaluations)
           = (if num_gt (maxDiff_of a b c) (Fin 2) \<and> negotiationPrompt_error evaluations = None
              then [MediatorCall evaluations] else [])" for r
    by (simp add: negotiateScores_numbers [OF assms])
  obtain rest where rest:
    "snd (decideHiring B caps evaluations)
       = snd (negotiateScores B (mediator caps) evaluations) @ rest"
    "\<forall>ev. MediatorCall ev \<notin> set rest"
    using decideHiring_calls by blast
  from rest(2) have "count_list rest (MediatorCall evaluations) = 0"
    by (simp add: count_list_0_iff)
  with rest(1) calls [of "mediator caps"]
  show "count_list (snd (decideHiring B caps evaluations)) (MediatorCall evaluations)
           = (if num_gt (maxDiff_of a b c) (Fin 2) \<and> negotiationPrompt_error evaluations = None
              then 1 else 0)"
    by simp
  fix ev
  assume "MediatorCall ev \<in> set (snd (decideHiring B caps evaluations))"
  with rest calls [of "mediator caps"] show "ev = evaluations"
    by (auto split: if_splits)
next
  fix i j k :: nat
  assume "a = of_nat i \<and> b = of_nat j \<and> c = of_nat k
              \<and> 1 \<le> i \<and> i \<le> 10 \<and> 1 \<le> j \<and> j \<le> 10 \<and> 1 \<le> k \<and> k \<le> 10"
  then show "num_gt (maxDiff_of a b c) (Fin 2) = (threshold < maxDeviation a b c)"
    using maxDiff_of_integers [of i j k] by simp
qed

theorem mediator_iff_discrepancy_witness:
  "has_scores scenario_B 9 4 8
   \<and> threshold < maxDeviation 9 4 8
   \<and> snd (negotiateScores some_builtins (Rejects ''timeout'') scenario_B)
       = [MediatorCall scenario_B]
   \<and> has_scores scenario_A 8 7 8
   \<and> \<not> threshold < maxDeviation 8 7 8
   \<and> snd (negotiateScores some_builtins (Rejects ''timeout'') scenario_A) = []"
proof -
  have B: "has_scores scenario_B 9 4 8"
    unfolding scenario_B_def by (rule has_scores_evaluation_set)
  have A: "has_scores scenario_A 8 7 8"
    unfolding scenario_A_def by (rule has_scores_evaluation_set)
  have pB: "negotiationPrompt_error scenario_B = None"
    unfolding scenario_B_def by (rule prompts_of_evaluation_set)
  note wB = mediator_iff_discrepancy [OF B, of some_builtins "Rejects ''timeout''"]
  note wA = mediator_iff_discrepancy [OF A, of some_builtins "Rejects ''timeout''"]
  have gtB: "threshold < maxDeviation 9 4 8"
    by (simp add: maxDeviation_exceeds)
  have gtA: "\<not> threshold < maxDeviation 8 7 8"
    by (simp add: maxDeviation_exceeds)
  from wB [THEN conjunct2, THEN conjunct2, THEN conjunct2, rule_format, of 9 4 8]
  have "num_gt (maxDiff_of 9 4 8) (Fin 2) = (threshold < maxDeviation 9 4 8)"
    by simp
  with wB gtB pB have 1: "snd (negotiateScores some_builtins (Rejects ''timeout'') scenario_B)
       = [MediatorCall scenario_B]"
    by simp
  from wA [THEN conjunct2, THEN conjunct2, THEN conjunct2, rule_format, of 8 7 8]
  have "num_gt (maxDiff_of 8 7 8) (Fin 2) = (threshold < maxDeviation 8 7 8)"
    by simp
  with wA gtA have 2: "snd (negotiateScores some_builtins (Rejects ''timeout'') scenario_A) = []"
    by simp
  from A B gtA gtB 1 2 show ?thesis by blast
qed

section \<open>The two negotiation steps\<close>

lemma unwritable_consensus_parsed:
  "parsed_object unwritable_consensus
     = Some (JObject [(str ''consensus_score'', JObject [(str ''toString'', JNum (Fin 1))]),
                      (str ''reasoning'', JString (str ''x''))])"
  by code_simp

lemma unwritable_consensus_dropped:
  "consensus_of unwritable_consensus = JNull"
  by code_simp

text \<open>
  Claim C10, as stated, fails in both variants alike. A JSON object is found in the
  mediator's answer, but its consensus score has a property \<^verbatim>\<open>toString\<close> of its own: the
  log line that writes the score raises, and both variants return \<^verbatim>\<open>null\<close>. And on the
  scores 3.1, 5.2 and 7, whose largest deviation from the mean is exactly 2, both invoke
  the mediator.
\<close>

theorem variants_drop_unwritable_consensus:
  "parsed_object unwritable_consensus
     = Some (JObject [(str ''consensus_score'', JObject [(str ''toString'', JNum (Fin 1))]),
                      (str ''reasoning'', JString (str ''x''))])
   \<and> negotiateScores some_builtins unwritable_consensus scenario_B
     = (Inr JNull, [MediatorCall scenario_B])
   \<and> negotiateScores_gemini some_builtins unwritable_consensus scenario_B
     = (Inr JNull, [MediatorCall scenario_B])
   \<and> has_scores scenario_D double_3_1 double_5_2 7
   \<and> \<not> 2 < maxDeviation double_3_1 double_5_2 7
   \<and> snd (negotiateScores some_builtins (Rejects ''timeout'') scenario_D)
       = [MediatorCall scenario_D]
   \<and> snd (negotiateScores_gemini some_builtins (Rejects ''timeout'') scenario_D)
       = [MediatorCall scenario_D]"
proof -
  have "has_scores scenario_D double_3_1 double_5_2 7"
    unfolding scenario_D_def by (rule has_scores_evaluation_set)
  then show ?thesis
    by (simp add: unwritable_consensus_parsed negotiateScores_gemini_cases
        scenario_B_negotiation scenario_D_negotiation unwritable_consensus_dropped
        scenario_D_exact)
qed

text \<open>
  Claim C10, amended. The negotiation step of \<^verbatim>\<open>agents.js\<close> and its Gemini variant return
  the same result and make the same invocations, on every evaluation set and every
  behaviour of the mediator, and neither throws. On three numeric scores both invoke
  the mediator exactly when the largest distance from the mean, computed in the
  arithmetic of doubles, is greater than 2 (for integer scores from 1 to 10: exactly
  when the largest absolute deviation from the mean exceeds 2) and the recommendations
  can be written into the prompt. Both then return the parsed consensus object when a
  JSON object is found in the response and its consensus score can be written to the
  log, and \<^verbatim>\<open>null\<close> in every other case.
\<close>

theorem negotiateScores_variants_agree:
  "negotiateScores_gemini B r evaluations = negotiateScores B r evaluations
   \<and> (\<exists>v calls. negotiateScores B r evaluations = (Inr v, calls))
   \<and> (has_scores evaluations a b c \<longrightarrow>
        negotiateScores B r evaluations =
          (if num_gt (maxDiff_of a b c) (Fin 2) \<and> negotiationPrompt_error evaluations = None
           then (Inr (case parsed_object r of
                        None \<Rightarrow> JNull
                      | Some negotiation \<Rightarrow>
                          if raises (get_opt negotiation ''consensus_score'') then JNull
                          else negotiation),
                 [MediatorCall evaluations])
           else (Inr JNull, [])))
   \<and> (1 \<le> i \<and> i \<le> 10 \<and> 1 \<le> j \<and> j \<le> 10 \<and> 1 \<le> k \<and> k \<le> 10 \<longrightarrow>
        num_gt (maxDiff_of (of_nat i) (of_nat j) (of_nat k)) (Fin 2)
          = (2 < maxDeviation (of_nat i) (of_nat j) (of_nat k)))"
proof (intro conjI impI)
  show "negotiateScores_gemini B r evaluations = negotiateScores B r evaluations"
    by (rule negotiateScores_gemini_cases)
  show "\<exists>v calls. negotiateScores B r evaluations = (Inr v, calls)"
    using negotiateScores_shape [of B r evaluations] by blast
next
  assume "has_scores evaluations a b c"
  from negotiateScores_numbers [OF this, of B r]
  show "negotiateScores B r evaluations =
          (if num_gt (maxDiff_of a b c) (Fin 2) \<and> negotiationPrompt_error evaluations = None
           then (Inr (case parsed_object r of
                        None \<Rightarrow> JNull
                      | Some negotiation \<Rightarrow>
                          if raises (get_opt negotiation ''consensus_score'') then JNull
                          else negotiation),
                 [MediatorCall evaluations])
           else (Inr JNull, []))"
    by (simp only: consensus_of_def)
next
  assume "1 \<le> i \<and> i \<le> 10 \<and> 1 \<le> j \<and> j \<le> 10 \<and> 1 \<le> k \<and> k \<le> 10"
  then show "num_gt (maxDiff_of (of_nat i) (of_nat j) (of_nat k)) (Fin 2)
          = (2 < maxDeviation (of_nat i) (of_nat j) (of_nat k))"
    using maxDiff_of_integers [of i j k] by (simp add: threshold_def)
qed

lemma parsed_consensus_example:
  \<open>parsed_object (Resolves ''Consensus: {"consensus_score": 7, "reasoning": "balanced"}'')
     = Some (JObject [(str ''consensus_score'', JNum (Fin 7)),
                      (str ''reasoning'', JString (str ''balanced''))])\<close>
  by code_simp

theorem negotiateScores_variants_agree_witness:
  \<open>has_scores scenario_B 9 4 8
   \<and> 2 < maxDeviation 9 4 8
   \<and> negotiateScores_gemini some_builtins
        (Resolves ''Consensus: {"consensus_score": 7, "reasoning": "balanced"}'') scenario_B
     = (Inr (JObject [(str ''consensus_score'', JNum (Fin 7)),
                      (str ''reasoning'', JString (str ''balanced''))]), [MediatorCall scenario_B])
   \<and> negotiateScores some_builtins
        (Resolves ''Consensus: {"consensus_score": 7, "reasoning": "balanced"}'') scenario_B
     = (Inr (JObject [(str ''consensus_score'', JNum (Fin 7)),
                      (str ''reasoning'', JString (str ''balanced''))]), [MediatorCall scenario_B])\<close>
proof -
  have B: "has_scores scenario_B 9 4 8"
    unfolding scenario_B_def by (rule has_scores_evaluation_set)
  have pB: "negotiationPrompt_error scenario_B = None"
    unfolding scenario_B_def by (rule prompts_of_evaluation_set)
  have gt: "2 < maxDeviation 9 4 8"
    using maxDeviation_exceeds [of 9 4 8] by (simp add: threshold_def)
  note w = negotiateScores_variants_agree [of some_builtins
      \<open>Resolves ''Consensus: {"consensus_score": 7, "reasoning": "balanced"}''\<close> scenario_B
      9 4 8 9 4 8]
  from w gt have "num_gt (maxDiff_of 9 4 8) (Fin 2)" by simp
  with w B pB parsed_consensus_example
  have "negotiateScores some_builtins
        (Resolves ''Consensus: {\"consensus_score\": 7, \"reasoning\": \"balanced\"}'') scenario_B
     = (Inr (JObject [(str ''consensus_score'', JNum (Fin 7)),
                      (str ''reasoning'', JString (str ''balanced''))]), [MediatorCall scenario_B])"
    by (simp add: str_def)
  with w B gt show ?thesis by simp
qed

section \<open>Negotiation is a soft step\<close>

lemma consensus_error_null:
  "consensus_error JNull = None"
  by (simp add: consensus_error_def)

lemma negotiation_of_failed_mediator:
  assumes "parsed_object r = None"
  shows "negotiation_of B r evaluations = JNull"
  using negotiation_of_cases [of B r evaluations] assms
  by (auto simp: consensus_of_def)

text \<open>
  Claim C8, as stated, fails: no range is checked. In scenario B the mediator answers
  with a consensus score of 42, and \<^verbatim>\<open>negotiateScores\<close> returns that object.
\<close>

theorem consensus_score_out_of_range:
  \<open>fst (negotiateScores some_builtins
          (Resolves ''{"consensus_score": 42, "reasoning": "x"}'') scenario_B)
     = Inr (JObject [(str ''consensus_score'', JNum (Fin 42)),
                     (str ''reasoning'', JString (str ''x''))])
   \<and> \<not> valid_consensus (JObject [(str ''consensus_score'', JNum (Fin 42)),
                                  (str ''reasoning'', JString (str ''x''))])\<close>
proof -
  have p: \<open>consensus_of (Resolves ''{"consensus_score": 42, "reasoning": "x"}'')
     = JObject [(str ''consensus_score'', JNum (Fin 42)),
                (str ''reasoning'', JString (str ''x''))]\<close>
    by code_simp
  have "\<not> valid_consensus (JObject [(str ''consensus_score'', JNum (Fin 42)),
                                  (str ''reasoning'', JString (str ''x''))])"
    by (simp add: valid_consensus_def str_def)
  with p show ?thesis by (simp add: scenario_B_negotiation)
qed

text \<open>
  Claim C8, amended. \<^verbatim>\<open>negotiateScores\<close> never throws: it returns \<^verbatim>\<open>null\<close> without an
  invocation, or it has invoked the mediator once and returns the JSON object found in
  the mediator's response, as parsed and with no check of the range of its consensus
  score, unless that score cannot be written to the log; it returns \<^verbatim>\<open>null\<close> when the
  mediator fails or its text holds no parseable object. Then the round goes on without
  a consensus: unless the evaluations stop the prompt of the judge, the judge is
  invoked with the evaluation set and \<^verbatim>\<open>null\<close>.
\<close>

theorem negotiation_is_soft:
  "(negotiateScores B r evaluations = (Inr JNull, [])
      \<or> negotiateScores B r evaluations
          = (Inr (case parsed_object r of
                    None \<Rightarrow> JNull
                  | Some negotiation \<Rightarrow>
                      if raises (get_opt negotiation ''consensus_score'') then JNull
                      else negotiation),
             [MediatorCall evaluations]))
   \<and> (parsed_object r = None \<longrightarrow> fst (negotiateScores B r evaluations) = Inr JNull)
   \<and> (parsed_object (mediator caps) = None \<and> prompt_error evaluations = None \<longrightarrow>
        JudgeCall evaluations JNull \<in> set (snd (decideHiring B caps evaluations)))"
proof (intro conjI impI)
  show "negotiateScores B r evaluations = (Inr JNull, [])
      \<or> negotiateScores B r evaluations
          = (Inr (case parsed_object r of
                    None \<Rightarrow> JNull
                  | Some negotiation \<Rightarrow>
                      if raises (get_opt negotiation ''consensus_score'') then JNull
                      else negotiation),
             [MediatorCall evaluations])"
    using negotiateScores_shape [of B r evaluations] by (simp only: consensus_of_def)
next
  assume "parsed_object r = None"
  then show "fst (negotiateScores B r evaluations) = Inr JNull"
    using negotiateScores_shape [of B r evaluations] by (auto simp: consensus_of_def)
next
  assume a: "parsed_object (mediator caps) = None \<and> prompt_error evaluations = None"
  then have n: "negotiation_of B (mediator caps) evaluations = JNull"
    by (simp add: negotiation_of_failed_mediator)
  from a have p: "prompt_error evaluations = None" by simp
  have c: "consensus_error (negotiation_of B (mediator caps) evaluations) = None"
    by (simp add: n consensus_error_null)
  from judge_is_called [OF p c]
  show "JudgeCall evaluations JNull \<in> set (snd (decideHiring B caps evaluations))"
    by (auto simp: n)
qed

theorem negotiation_is_soft_witness:
  "parsed_object (mediator mediator_down) = None
   \<and> negotiateScores some_builtins (mediator mediator_down) scenario_B
       = (Inr JNull, [MediatorCall scenario_B])
   \<and> prompt_error scenario_B = None
   \<and> JudgeCall scenario_B JNull \<in> set (snd (decideHiring some_builtins mediator_down scenario_B))"
proof -
  have m: "parsed_object (mediator mediator_down) = None"
    by (simp add: mediator_down_def parsed_object_def)
  have p: "prompt_error scenario_B = None"
    unfolding scenario_B_def by (rule prompts_of_evaluation_set)
  have n: "negotiateScores some_builtins (mediator mediator_down) scenario_B
       = (Inr JNull, [MediatorCall scenario_B])"
    using m by (simp add: scenario_B_negotiation consensus_of_def)
  from m p n negotiation_is_soft [of some_builtins "mediator mediator_down" scenario_B mediator_down]
  show ?thesis by simp
qed

section \<open>The decision\<close>

text \<open>
  Claim C4. \<^verbatim>\<open>decideHiring\<close> never rejects. When the judgment capability fails entirely
  (it throws, or its text holds no parseable JSON object), \<^verbatim>\<open>generateFinalDecision\<close>
  returns \<^verbatim>\<open>null\<close>, reading \<^verbatim>\<open>final_decision\<close> of it raises, and the \<^verbatim>\<open>catch\<close> block returns
  the fixed fallback: outcome \<^verbatim>\<open>MAYBE\<close>, confidence 0.5, a rationale that recommends manual
  review, and empty details.
\<close>

theorem judge_failure_gives_fallback:
  "(\<exists>d. fst (decideHiring B caps evaluations) = Inr d)
   \<and> (parsed_object (judge caps) = None \<longrightarrow>
        fst (decideHiring B caps evaluations)
          = Inr (fallback ''Cannot read properties of null (reading final_decision)''))
   \<and> get_opt (fallback cause) ''final_decision'' = JString (str ''MAYBE'')
   \<and> get_opt (fallback cause) ''confidence_score'' = JNum (Fin (1 / 2))
   \<and> get_opt (fallback cause) ''reasoning''
       = JString (str ''Decision could not be fully evaluated. Recommend manual review.'')
   \<and> get_opt (fallback cause) ''details'' = JObject []"
  using decideHiring_fulfilled [of B caps evaluations]
    decideHiring_without_decision [of caps B evaluations]
  by (simp add: fallback_fields)

theorem judge_failure_gives_fallback_witness:
  "parsed_object (judge mediator_down) = None
   \<and> fst (decideHiring some_builtins mediator_down scenario_B)
       = Inr (fallback ''Cannot read properties of null (reading final_decision)'')"
proof -
  have "parsed_object (judge mediator_down) = None"
    by (simp add: mediator_down_def parsed_object_def)
  with judge_failure_gives_fallback [of some_builtins mediator_down scenario_B]
  show ?thesis by simp
qed

section \<open>Outcome and confidence\<close>

lemma valid_fallback:
  "valid_decision (fallback cause)"
  by (simp add: valid_decision_def fallback_fields)

lemma scenario_A_round:
  "negotiation_of B r scenario_A = JNull"
  "snd (negotiateScores B r scenario_A) = []"
  "prompt_error scenario_A = None"
  "consensus_error (negotiation_of B r scenario_A) = None"
proof -
  show 1: "negotiation_of B r scenario_A = JNull"
    by (simp add: negotiation_of_def scenario_A_negotiation)
  show "snd (negotiateScores B r scenario_A) = []"
    by (simp add: scenario_A_negotiation)
  show "prompt_error scenario_A = None"
    unfolding scenario_A_def by (rule prompts_of_evaluation_set)
  show "consensus_error (negotiation_of B r scenario_A) = None"
    by (simp add: 1 consensus_error_null)
qed

text \<open>
  Claim C7, as stated, fails: the decision of the judge is not validated. A judge that
  answers \<^verbatim>\<open>PASS\<close> with confidence 95 has its answer returned as the decision.
\<close>

theorem decision_not_validated:
  "fst (decideHiring some_builtins overconfident_judge scenario_A)
     = Inr (JObject [(str ''final_decision'', JString (str ''PASS'')),
                     (str ''confidence_score'', JNum (Fin 95))])
   \<and> \<not> valid_decision (JObject [(str ''final_decision'', JString (str ''PASS'')),
                                 (str ''confidence_score'', JNum (Fin 95))])"
proof -
  have j: "parsed_object (judge overconfident_judge)
             = Some (JObject [(str ''final_decision'', JString (str ''PASS'')),
                              (str ''confidence_score'', JNum (Fin 95))])"
    by code_simp
  have u: "\<not> undecided [(str ''final_decision'', JString (str ''PASS'')),
                         (str ''confidence_score'', JNum (Fin 95))]"
    by (simp add: undecided_def str_def)
  have l: "logged (JObject [(str ''final_decision'', JString (str ''PASS'')),
                            (str ''confidence_score'', JNum (Fin 95))])
             = JObject [(str ''final_decision'', JString (str ''PASS'')),
                        (str ''confidence_score'', JNum (Fin 95))]"
    by code_simp
  have "\<not> valid_decision (JObject [(str ''final_decision'', JString (str ''PASS'')),
                                 (str ''confidence_score'', JNum (Fin 95))])"
    by (simp add: valid_decision_def str_def)
  with decideHiring_with_decision
      [OF scenario_A_round(3)
          scenario_A_round(4) [of some_builtins "mediator overconfident_judge"] j]
    scenario_A_round(1,2) [of some_builtins "mediator overconfident_judge"] u l
  show ?thesis by simp
qed

text \<open>
  Claim C7, amended. \<^verbatim>\<open>decideHiring\<close> always returns a decision. It is the fallback,
  whose outcome \<^verbatim>\<open>MAYBE\<close> and confidence 0.5 lie within the vocabulary and the range, or
  its outcome and its confidence are the \<^verbatim>\<open>final_decision\<close> and the \<^verbatim>\<open>confidence_score\<close> of
  the JSON object that the judge returned, whatever they are. It is the fallback when
  the judgment capability fails, whatever the mediator and the clarifier do. It has the
  values of the judge whenever the prompt can be built, the judge returns an object,
  and the outcome, the confidence and the rationale of that object can be converted as
  the log lines and the appended sentence require.
\<close>

theorem decision_fields_come_from_judge:
  "(\<exists>d. fst (decideHiring B caps evaluations) = Inr d
        \<and> ((\<exists>cause. d = fallback cause)
            \<or> (\<exists>v. parsed_object (judge caps) = Some v
                  \<and> get_opt d ''final_decision'' = get_opt v ''final_decision''
                  \<and> get_opt d ''confidence_score'' = get_opt v ''confidence_score'')))
   \<and> valid_decision (fallback cause)
   \<and> get_opt (fallback cause) ''final_decision'' = JString (str ''MAYBE'')
   \<and> get_opt (fallback cause) ''confidence_score'' = JNum (Fin (1 / 2))
   \<and> (parsed_object (judge caps) = None \<longrightarrow>
        (\<exists>cause. fst (decideHiring B caps evaluations) = Inr (fallback cause)))
   \<and> (prompt_error evaluations = None
        \<and> consensus_error (negotiation_of B (mediator caps) evaluations) = None
        \<and> parsed_object (judge caps) = Some v
        \<and> log_error v = None \<and> \<not> raises (get_opt v ''reasoning'')
      \<longrightarrow> (\<exists>d. fst (decideHiring B caps evaluations) = Inr d
              \<and> get_opt d ''final_decision'' = get_opt v ''final_decision''
              \<and> get_opt d ''confidence_score'' = get_opt v ''confidence_score''))"
proof (intro conjI impI)
  show "\<exists>d. fst (decideHiring B caps evaluations) = Inr d
        \<and> ((\<exists>cause. d = fallback cause)
            \<or> (\<exists>v. parsed_object (judge caps) = Some v
                  \<and> get_opt d ''final_decision'' = get_opt v ''final_decision''
                  \<and> get_opt d ''confidence_score'' = get_opt v ''confidence_score''))"
  proof (cases "prompt_error evaluations = None
              \<and> consensus_error (negotiation_of B (mediator caps) evaluations) = None")
    case False
    from decideHiring_without_prompt [OF this]
    have "fst (decideHiring B caps evaluations)
            = Inr (fallback ''Cannot read properties of null (reading final_decision)'')"
      by simp
    then show ?thesis by blast
  next
    case True
    then have p: "prompt_error evaluations = None"
      and c: "consensus_error (negotiation_of B (mediator caps) evaluations) = None"
      by simp_all
    show ?thesis
    proof (cases "parsed_object (judge caps)")
      case None
      from decideHiring_without_decision [OF this, of B evaluations]
      show ?thesis by blast
    next
      case (Some w)
      then obtain kvs where w: "w = JObject kvs"
        using parsed_object_is_object by blast
      note d = decideHiring_with_decision [OF p c Some [unfolded w]]
      show ?thesis
      proof (cases "log_error (JObject kvs)")
        case None
        then have "logged (JObject kvs) = JObject kvs"
          "logged (with_question B q kvs) = with_question B q kvs" for q
          by (simp_all add: logged_fields log_error_with_question)
        with d Some w show ?thesis
          by (auto simp: with_question_fields split: option.split simp del: get_opt.simps)
      next
        case (Some e)
        then have "\<exists>cause. logged (JObject kvs) = fallback cause"
          "\<exists>cause. logged (with_question B q kvs) = fallback cause" for q
          by (simp_all add: logged_fields log_error_with_question)
        with d show ?thesis
          by (auto split: option.split)
      qed
    qed
  qed
next
  show "valid_decision (fallback cause)" by (rule valid_fallback)
  show "get_opt (fallback cause) ''final_decision'' = JString (str ''MAYBE'')"
    by (rule fallback_fields)
  show "get_opt (fallback cause) ''confidence_score'' = JNum (Fin (1 / 2))"
    by (rule fallback_fields)
next
  assume "parsed_object (judge caps) = None"
  then show "\<exists>cause. fst (decideHiring B caps evaluations) = Inr (fallback cause)"
    using decideHiring_without_decision by blast
next
  assume a: "prompt_error evaluations = None
        \<and> consensus_error (negotiation_of B (mediator caps) evaluations) = None
        \<and> parsed_object (judge caps) = Some v
        \<and> log_error v = None \<and> \<not> raises (get_opt v ''reasoning'')"
  then obtain kvs where v: "v = JObject kvs"
    using parsed_object_is_object by blast
  from a v have p: "prompt_error evaluations = None"
    and c: "consensus_error (negotiation_of B (mediator caps) evaluations) = None"
    and j: "parsed_object (judge caps) = Some (JObject kvs)"
    and l: "log_error (JObject kvs) = None"
    and r: "\<not> raises (get_opt (JObject kvs) ''reasoning'')"
    by simp_all
  from l have "logged (JObject kvs) = JObject kvs"
    "logged (with_question B q kvs) = with_question B q kvs" for q
    by (simp_all add: logged_fields log_error_with_question)
  with decideHiring_with_decision [OF p c j] r v
  show "\<exists>d. fst (decideHiring B caps evaluations) = Inr d
              \<and> get_opt d ''final_decision'' = get_opt v ''final_decision''
              \<and> get_opt d ''confidence_score'' = get_opt v ''confidence_score''"
    by (auto simp: with_question_fields split: option.split simp del: get_opt.simps)
qed

lemma undecided_answer:
  "parsed_object (judge asking_clarifier)
     = Some (JObject [(str ''final_decision'', JString (str ''MAYBE'')),
                      (str ''confidence_score'', JNum (Fin (1 / 2))),
                      (str ''reasoning'', JString (str ''Unclear.''))])"
  "parsed_object (judge blank_clarifier)
     = Some (JObject [(str ''final_decision'', JString (str ''MAYBE'')),
                      (str ''confidence_score'', JNum (Fin (1 / 2))),
                      (str ''reasoning'', JString (str ''Unclear.''))])"
  "undecided [(str ''final_decision'', JString (str ''MAYBE'')),
              (str ''confidence_score'', JNum (Fin (1 / 2))),
              (str ''reasoning'', JString (str ''Unclear.''))]"
  "log_error (JObject [(str ''final_decision'', JString (str ''MAYBE'')),
                       (str ''confidence_score'', JNum (Fin (1 / 2))),
                       (str ''reasoning'', JString (str ''Unclear.''))]) = None"
  "\<not> raises (get_opt (JObject [(str ''final_decision'', JString (str ''MAYBE'')),
                                (str ''confidence_score'', JNum (Fin (1 / 2))),
                                (str ''reasoning'', JString (str ''Unclear.''))]) ''reasoning'')"
  by code_simp+

theorem decision_fields_come_from_judge_witness:
  "parsed_object (judge mediator_down) = None
   \<and> (\<exists>cause. fst (decideHiring some_builtins mediator_down scenario_B) = Inr (fallback cause))
   \<and> prompt_error scenario_A = None
   \<and> consensus_error (negotiation_of some_builtins (mediator asking_clarifier) scenario_A) = None
   \<and> parsed_object (judge asking_clarifier)
     = Some (JObject [(str ''final_decision'', JString (str ''MAYBE'')),
                      (str ''confidence_score'', JNum (Fin (1 / 2))),
                      (str ''reasoning'', JString (str ''Unclear.''))])
   \<and> (\<exists>d. fst (decideHiring some_builtins asking_clarifier scenario_A) = Inr d
          \<and> get_opt d ''final_decision'' = JString (str ''MAYBE'')
          \<and> get_opt d ''confidence_score'' = JNum (Fin (1 / 2)))"
proof -
  have 1: "parsed_object (judge mediator_down) = None"
    by (simp add: mediator_down_def parsed_object_def)
  note wB = decision_fields_come_from_judge [of some_builtins mediator_down scenario_B]
  from 1 wB have a: "\<exists>cause. fst (decideHiring some_builtins mediator_down scenario_B)
                        = Inr (fallback cause)"
    by blast
  note wA = decision_fields_come_from_judge [of some_builtins asking_clarifier scenario_A _
      "JObject [(str ''final_decision'', JString (str ''MAYBE'')),
                (str ''confidence_score'', JNum (Fin (1 / 2))),
                (str ''reasoning'', JString (str ''Unclear.''))]"]
  note c = scenario_A_round(4) [of some_builtins "mediator asking_clarifier"]
  from wA scenario_A_round(3) c undecided_answer(1,4,5)
  have b: "\<exists>d. fst (decideHiring some_builtins asking_clarifier scenario_A) = Inr d
          \<and> get_opt d ''final_decision'' = JString (str ''MAYBE'')
          \<and> get_opt d ''confidence_score'' = JNum (Fin (1 / 2))"
    by (simp add: str_def)
  from 1 a b scenario_A_round(3) c undecided_answer(1)
  show ?thesis by blast
qed

section \<open>The follow-up question\<close>

text \<open>
  Claim C9, as stated, fails where the clarifier succeeds with a blank text: the text
  is trimmed, the empty string is falsy, and the decision is returned without a
  question and with its rationale unchanged.
\<close>

theorem blank_question_not_attached:
  "clarifier blank_clarifier = Resolves '' ''
   \<and> decideHiring some_builtins blank_clarifier scenario_A
     = (Inr (JObject [(str ''final_decision'', JString (str ''MAYBE'')),
                      (str ''confidence_score'', JNum (Fin (1 / 2))),
                      (str ''reasoning'', JString (str ''Unclear.''))]),
        [JudgeCall scenario_A JNull, ClarifierCall scenario_A])
   \<and> get_opt (JObject [(str ''final_decision'', JString (str ''MAYBE'')),
                        (str ''confidence_score'', JNum (Fin (1 / 2))),
                        (str ''reasoning'', JString (str ''Unclear.''))]) ''follow_up_question''
     = JUndefined"
proof -
  have c: "clarifier blank_clarifier = Resolves '' ''"
    by (simp add: blank_clarifier_def)
  have q: "question_of (Resolves '' '') = None"
    by code_simp
  from decideHiring_with_decision
      [OF scenario_A_round(3) scenario_A_round(4) [of some_builtins "mediator blank_clarifier"]
          undecided_answer(2)]
    scenario_A_round(1,2) [of some_builtins "mediator blank_clarifier"]
    undecided_answer(3) c q logged_fields(1) [OF undecided_answer(4)]
  show ?thesis
    by (simp add: str_def)
qed

text \<open>
  Claim C9, amended. Let the judgment step produce a decision: the prompt of the judge
  can be built and the judge returns an object. If its outcome is \<^verbatim>\<open>MAYBE\<close> and it
  carries no question (none, or a falsy one), the clarifier is invoked, once and with
  the same evaluation set. When it resolves with a text that is not empty once trimmed,
  the trimmed text is attached as \<^verbatim>\<open>follow_up_question\<close> and the sentence that recommends
  a follow-up is appended to the rationale, unless the rationale cannot be converted to
  text: then the fallback is returned. When the clarifier rejects or resolves with
  white space only, the decision is left as the judge gave it. If the outcome is not
  \<^verbatim>\<open>MAYBE\<close> or a question is attached, the clarifier is not invoked and the decision is
  left as the judge gave it. In each case the decision then passes the two log lines:
  it is returned, unless its outcome or its confidence cannot be converted, in which
  case the fallback is returned.
\<close>

theorem follow_up_question_rule:
  assumes "prompt_error evaluations = None"
    "consensus_error (negotiation_of B (mediator caps) evaluations) = None"
    "parsed_object (judge caps) = Some (JObject kvs)"
  shows "decideHiring B caps evaluations =
     (if undecided kvs then
        (Inr (case question_of (clarifier caps) of
                Some q \<Rightarrow>
                  if raises (get_opt (JObject kvs) ''reasoning'')
                  then fallback (message conversion_error)
                  else logged (with_question B q kvs)
              | None \<Rightarrow> logged (JObject kvs)),
         snd (negotiateScores B (mediator caps) evaluations)
           @ [JudgeCall evaluations (negotiation_of B (mediator caps) evaluations),
              ClarifierCall evaluations])
      else
        (Inr (logged (JObject kvs)),
         snd (negotiateScores B (mediator caps) evaluations)
           @ [JudgeCall evaluations (negotiation_of B (mediator caps) evaluations)]))
    \<and> get_opt (with_question B q kvs) ''follow_up_question'' = JString q
    \<and> get_opt (with_question B q kvs) ''reasoning''
        = JString (ToString B (get_opt (JObject kvs) ''reasoning'')
                   @ str '' A follow-up question is recommended to clarify ambiguities.'')
    \<and> (\<forall>ev. ClarifierCall ev \<notin> set (snd (negotiateScores B (mediator caps) evaluations)))
    \<and> (log_error (JObject kvs) = None \<longrightarrow>
         logged (JObject kvs) = JObject kvs
         \<and> logged (with_question B q kvs) = with_question B q kvs)
    \<and> (log_error (JObject kvs) \<noteq> None \<longrightarrow>
         logged (JObject kvs) = fallback (message conversion_error)
         \<and> logged (with_question B q kvs) = fallback (message conversion_error))"
proof (intro conjI allI impI)
  show "decideHiring B caps evaluations =
     (if undecided kvs then
        (Inr (case question_of (clarifier caps) of
                Some q \<Rightarrow>
                  if raises (get_opt (JObject kvs) ''reasoning'')
                  then fallback (message conversion_error)
                  else logged (with_question B q kvs)
              | None \<Rightarrow> logged (JObject kvs)),
         snd (negotiateScores B (mediator caps) evaluations)
           @ [JudgeCall evaluations (negotiation_of B (mediator caps) evaluations),
              ClarifierCall evaluations])
      else
        (Inr (logged (JObject kvs)),
         snd (negotiateScores B (mediator caps) evaluations)
           @ [JudgeCall evaluations (negotiation_of B (mediator caps) evaluations)]))"
    using assms by (rule decideHiring_with_decision)
next
  fix ev
  show "ClarifierCall ev \<notin> set (snd (negotiateScores B (mediator caps) evaluations))"
    using negotiateScores_shape [of B "mediator caps" evaluations] by auto
next
  assume "log_error (JObject kvs) = None"
  then show "logged (JObject kvs) = JObject kvs"
    "logged (with_question B q kvs) = with_question B q kvs"
    by (simp_all add: logged_fields log_error_with_question)
next
  assume l: "log_error (JObject kvs) \<noteq> None"
  have "e = conversion_error" if "log_error (JObject kvs) = Some e" for e
    using that
    by (auto simp: log_error_def written_error_object convert_error_def
        split: if_splits simp del: get_opt.simps)
  with l show "logged (JObject kvs) = fallback (message conversion_error)"
    "logged (with_question B q kvs) = fallback (message conversion_error)"
    by (auto simp: logged_def log_error_with_question split: option.split)
qed (rule with_question_fields)+

theorem follow_up_question_rule_witness:
  "prompt_error scenario_A = None
   \<and> consensus_error (negotiation_of some_builtins (mediator asking_clarifier) scenario_A) = None
   \<and> parsed_object (judge asking_clarifier)
     = Some (JObject [(str ''final_decision'', JString (str ''MAYBE'')),
                      (str ''confidence_score'', JNum (Fin (1 / 2))),
                      (str ''reasoning'', JString (str ''Unclear.''))])
   \<and> decideHiring some_builtins asking_clarifier scenario_A
     = (Inr (JObject
               [(str ''final_decision'', JString (str ''MAYBE'')),
                (str ''confidence_score'', JNum (Fin (1 / 2))),
                (str ''reasoning'',
                   JString (str ''Unclear. A follow-up question is recommended to clarify ambiguities.'')),
                (str ''follow_up_question'', JString (str ''Which project did you lead?''))]),
        [JudgeCall scenario_A JNull, ClarifierCall scenario_A])"
proof -
  note p = scenario_A_round(3) and c = scenario_A_round(4) [of some_builtins "mediator asking_clarifier"]
  note j = undecided_answer(1)
  have q: "question_of (clarifier asking_clarifier) = Some (str ''Which project did you lead?'')"
    by code_simp
  have w: "with_question some_builtins (str ''Which project did you lead?'')
             [(str ''final_decision'', JString (str ''MAYBE'')),
              (str ''confidence_score'', JNum (Fin (1 / 2))),
              (str ''reasoning'', JString (str ''Unclear.''))]
         = JObject
               [(str ''final_decision'', JString (str ''MAYBE'')),
                (str ''confidence_score'', JNum (Fin (1 / 2))),
                (str ''reasoning'',
                   JString (str ''Unclear. A follow-up question is recommended to clarify ambiguities.'')),
                (str ''follow_up_question'', JString (str ''Which project did you lead?''))]"
    by code_simp
  note r = follow_up_question_rule [OF p c j, of "str ''Which project did you lead?''"]
  from r undecided_answer(4)
  have l: "logged (with_question some_builtins (str ''Which project did you lead?'')
             [(str ''final_decision'', JString (str ''MAYBE'')),
              (str ''confidence_score'', JNum (Fin (1 / 2))),
              (str ''reasoning'', JString (str ''Unclear.''))])
           = with_question some_builtins (str ''Which project did you lead?'')
             [(str ''final_decision'', JString (str ''MAYBE'')),
              (str ''confidence_score'', JNum (Fin (1 / 2))),
              (str ''reasoning'', JString (str ''Unclear.''))]"
    by blast
  from r [THEN conjunct1] undecided_answer(3,5) q
    scenario_A_round(1,2) [of some_builtins "mediator asking_clarifier"]
  have "decideHiring some_builtins asking_clarifier scenario_A
     = (Inr (logged (with_question some_builtins (str ''Which project did you lead?'')
             [(str ''final_decision'', JString (str ''MAYBE'')),
              (str ''confidence_score'', JNum (Fin (1 / 2))),
              (str ''reasoning'', JString (str ''Unclear.''))])),
        [JudgeCall scenario_A JNull, ClarifierCall scenario_A])"
    by (simp del: get_opt.simps)
  with l w p c j show ?thesis by simp
qed

section \<open>One evaluator\<close>

lemma evaluate_cases:
  "evaluate a r c =
     (case filledPrompt_error c of
        Some e \<Rightarrow> (Inr (placeholder (message e)), [])
      | None \<Rightarrow>
          (Inr (case invocation_error ''Invalid JSON response format from agent'' r of
                  Some e \<Rightarrow> placeholder (message e)
                | None \<Rightarrow>
                    (case parsed_object r of
                       Some v \<Rightarrow>
                         (case first_error
                                 [written_error v ''score'', written_error v ''recommendation''] of
                            Some e \<Rightarrow> placeholder (message e)
                          | None \<Rightarrow> v)
                     | None \<Rightarrow> JUndefined)),
           [EvaluatorCall a]))"
  by (simp add: evaluate_def evaluate_try_def invocation_error_def parsed_object_def
      split: option.split response.split sum.split)

lemma evaluate_fulfilled:
  "\<exists>v. fst (evaluate a r c) = Inr v"
  by (simp add: evaluate_cases split: option.split)

lemma placeholder_fields:
  "get_opt (placeholder cause) ''score'' = JNum (Fin 5)"
  "get_opt (placeholder cause) ''recommendation'' = JString (str ''MAYBE'')"
  "get_opt (get_opt (placeholder cause) ''analysis'') ''error'' = JString (str cause)"
  by (simp_all add: placeholder_def str_def)

text \<open>
  Claim C3. \<^verbatim>\<open>Agent.evaluate\<close> never rejects. When the invocation fails, because the
  capability throws, because no JSON object is found in its text, or because the match
  does not parse, the result is the placeholder: score 5, recommendation \<^verbatim>\<open>MAYBE\<close>, and
  an analysis whose \<^verbatim>\<open>error\<close> is the message of the failure (of the TypeError of the
  prompt, when the candidate's fields stop the prompt and nothing was invoked).
\<close>

theorem failed_evaluator_gets_placeholder:
  "(\<exists>v. fst (evaluate a r c) = Inr v)
   \<and> (invocation_error ''Invalid JSON response format from agent'' r = Some e \<longrightarrow>
        fst (evaluate a r c)
          = Inr (placeholder
                   (message (case filledPrompt_error c of Some e' \<Rightarrow> e' | None \<Rightarrow> e))))
   \<and> get_opt (placeholder cause) ''score'' = JNum (Fin 5)
   \<and> get_opt (placeholder cause) ''recommendation'' = JString (str ''MAYBE'')
   \<and> get_opt (get_opt (placeholder cause) ''analysis'') ''error'' = JString (str cause)"
proof (intro conjI impI)
  show "\<exists>v. fst (evaluate a r c) = Inr v"
    by (rule evaluate_fulfilled)
next
  assume "invocation_error ''Invalid JSON response format from agent'' r = Some e"
  then show "fst (evaluate a r c)
          = Inr (placeholder
                   (message (case filledPrompt_error c of Some e' \<Rightarrow> e' | None \<Rightarrow> e)))"
    by (simp add: evaluate_cases split: option.split)
qed (rule placeholder_fields)+

lemma filledPrompt_error_some_candidate:
  "filledPrompt_error some_candidate = None"
  by (simp add: some_candidate_def filledPrompt_error_def convert_error_def)

theorem failed_evaluator_gets_placeholder_witness:
  \<open>invocation_error ''Invalid JSON response format from agent'' (Rejects ''timeout'')
     = Some (Error ''timeout'')
   \<and> evaluate Manager (Rejects ''timeout'') some_candidate
     = (Inr (placeholder ''timeout''), [EvaluatorCall Manager])
   \<and> invocation_error ''Invalid JSON response format from agent''
        (Resolves ''I would rate this candidate 8 out of 10.'')
     = Some (Error ''Invalid JSON response format from agent'')
   \<and> fst (evaluate HR (Resolves ''I would rate this candidate 8 out of 10.'') some_candidate)
     = Inr (placeholder ''Invalid JSON response format from agent'')
   \<and> invocation_error ''Invalid JSON response format from agent''
        (Resolves ''{"score": 8, "recommendation": }'')
     = Some (SyntaxError ''Unexpected token in JSON'')
   \<and> fst (evaluate Sales (Resolves ''{"score": 8, "recommendation": }'') some_candidate)
     = Inr (placeholder ''Unexpected token in JSON'')\<close>
proof -
  have 1: "invocation_error ''Invalid JSON response format from agent'' (Rejects ''timeout'')
     = Some (Error ''timeout'')"
    by (simp add: invocation_error_def)
  have 2: "invocation_error ''Invalid JSON response format from agent''
        (Resolves ''I would rate this candidate 8 out of 10.'')
     = Some (Error ''Invalid JSON response format from agent'')"
    by code_simp
  have 3: \<open>invocation_error ''Invalid JSON response format from agent''
        (Resolves ''{"score": 8, "recommendation": }'')
     = Some (SyntaxError ''Unexpected token in JSON'')\<close>
    by code_simp
  have calls: "snd (evaluate Manager (Rejects ''timeout'') some_candidate) = [EvaluatorCall Manager]"
    by (simp add: evaluate_cases filledPrompt_error_some_candidate)
  from 1 2 3 calls filledPrompt_error_some_candidate
    failed_evaluator_gets_placeholder
      [of Manager "Rejects ''timeout''" some_candidate "Error ''timeout''"]
    failed_evaluator_gets_placeholder
      [of HR "Resolves ''I would rate this candidate 8 out of 10.''" some_candidate
          "Error ''Invalid JSON response format from agent''"]
    failed_evaluator_gets_placeholder
      [of Sales \<open>Resolves ''{"score": 8, "recommendation": }''\<close> some_candidate
          "SyntaxError ''Unexpected token in JSON''"]
  show ?thesis by (simp add: prod_eq_iff)
qed

section \<open>What of the text is parsed\<close>

lemma regex_exec_None_iff:
  "regex_exec responseText = None
     \<longleftrightarrow> CHR ''}'' \<notin> set (dropWhile (\<lambda>c. c \<noteq> CHR ''{'') responseText)"
proof -
  have "dropWhile P xs = [] \<longleftrightarrow> (\<forall>x\<in>set xs. P x)" for P and xs :: string
    by (simp add: dropWhile_eq_Nil_conv)
  from this [of "\<lambda>c. c \<noteq> CHR ''}''" "rev (dropWhile (\<lambda>c. c \<noteq> CHR ''{'') responseText)"]
  show ?thesis
    by (auto simp: regex_exec_def Let_def)
qed

text \<open>
  Claim C5, as stated, fails twice. Nothing is validated: an object whose score is the
  string \<^verbatim>\<open>high\<close> and whose recommendation is \<^verbatim>\<open>PERHAPS\<close> is returned as the evaluation.
  And the match is not the first balanced substring: on a text with a valid evaluation
  followed by a second pair of braces, the first balanced substring parses to a valid
  evaluation, yet the match runs to the last brace, does not parse, and the
  placeholder is returned.
\<close>

theorem evaluate_does_not_validate:
  \<open>fst (evaluate HR (Resolves ''{"score": "high", "recommendation": "PERHAPS"}'') some_candidate)
     = Inr (JObject [(str ''score'', JString (str ''high'')),
                     (str ''recommendation'', JString (str ''PERHAPS''))])
   \<and> \<not> valid_evaluation (JObject [(str ''score'', JString (str ''high'')),
                                   (str ''recommendation'', JString (str ''PERHAPS''))])
   \<and> first_balanced ''{"score": 8, "recommendation": "YES", "analysis": {}} or {}''
     = Some ''{"score": 8, "recommendation": "YES", "analysis": {}}''
   \<and> JSON_parse ''{"score": 8, "recommendation": "YES", "analysis": {}}''
     = Inr (evaluation_of 8 ''YES'')
   \<and> valid_evaluation (evaluation_of 8 ''YES'')
   \<and> fst (evaluate HR (Resolves ''{"score": 8, "recommendation": "YES", "analysis": {}} or {}'')
            some_candidate)
     = Inr (placeholder ''Unexpected token in JSON'')\<close>
proof (intro conjI)
  show \<open>fst (evaluate HR (Resolves ''{"score": "high", "recommendation": "PERHAPS"}'') some_candidate)
     = Inr (JObject [(str ''score'', JString (str ''high'')),
                     (str ''recommendation'', JString (str ''PERHAPS''))])\<close>
    by code_simp
  show \<open>\<not> valid_evaluation (JObject [(str ''score'', JString (str ''high'')),
                                   (str ''recommendation'', JString (str ''PERHAPS''))])\<close>
    by (simp add: valid_evaluation_def str_def)
  show \<open>first_balanced ''{"score": 8, "recommendation": "YES", "analysis": {}} or {}''
     = Some ''{"score": 8, "recommendation": "YES", "analysis": {}}''\<close>
    by code_simp
  show \<open>JSON_parse ''{"score": 8, "recommendation": "YES", "analysis": {}}''
     = Inr (evaluation_of 8 ''YES'')\<close>
    by code_simp
  show "valid_evaluation (evaluation_of 8 ''YES'')"
    by (simp add: valid_evaluation_def evaluation_of_def str_def)
  show \<open>fst (evaluate HR (Resolves ''{"score": 8, "recommendation": "YES", "analysis": {}} or {}'')
            some_candidate)
     = Inr (placeholder ''Unexpected token in JSON'')\<close>
    by code_simp
qed

text \<open>
  Claim C5, amended. For every text returned by an evaluator capability (the prompt
  having been built), the orchestrator takes the substring from the first opening
  brace to the last closing brace of the text and parses it. When the text has no
  closing brace after its first opening brace, or the substring does not parse, the
  placeholder is substituted, as for an invocation failure; so it is when the score or
  the recommendation of the parsed object cannot be converted to text for the log
  line. Otherwise the parsed object is returned as it is: neither its score nor its
  recommendation is checked.
\<close>

theorem evaluate_parses_greedy_match:
  "(filledPrompt_error c = None \<longrightarrow>
      fst (evaluate a (Resolves responseText) c)
        = Inr (case regex_exec responseText of
                 None \<Rightarrow> placeholder ''Invalid JSON response format from agent''
               | Some jsonMatch \<Rightarrow>
                   (case JSON_parse jsonMatch of
                      Inl e \<Rightarrow> placeholder (message e)
                    | Inr evaluation \<Rightarrow>
                        if raises (get_opt evaluation ''score'')
                           \<or> raises (get_opt evaluation ''recommendation'')
                        then placeholder (message conversion_error)
                        else evaluation)))
   \<and> (regex_exec responseText = Some jsonMatch \<longrightarrow>
        (\<exists>pre mid post. responseText = pre @ jsonMatch @ post
            \<and> jsonMatch = CHR ''{'' # mid \<and> last jsonMatch = CHR ''}''
            \<and> CHR ''{'' \<notin> set pre \<and> CHR ''}'' \<notin> set post))
   \<and> (regex_exec responseText = None
        \<longleftrightarrow> CHR ''}'' \<notin> set (dropWhile (\<lambda>c. c \<noteq> CHR ''{'') responseText))"
proof (intro conjI impI)
  assume p: "filledPrompt_error c = None"
  show "fst (evaluate a (Resolves responseText) c)
        = Inr (case regex_exec responseText of
                 None \<Rightarrow> placeholder ''Invalid JSON response format from agent''
               | Some jsonMatch \<Rightarrow>
                   (case JSON_parse jsonMatch of
                      Inl e \<Rightarrow> placeholder (message e)
                    | Inr evaluation \<Rightarrow>
                        if raises (get_opt evaluation ''score'')
                           \<or> raises (get_opt evaluation ''recommendation'')
                        then placeholder (message conversion_error)
                        else evaluation))"
  proof (cases "regex_exec responseText")
    case None
    with p show ?thesis by (simp add: evaluate_def evaluate_try_def)
  next
    case (Some jsonMatch)
    show ?thesis
    proof (cases "JSON_parse jsonMatch")
      case (Inl e)
      with p Some show ?thesis by (simp add: evaluate_def evaluate_try_def)
    next
      case (Inr v)
      from matched_parse_is_object [OF Some Inr] obtain kvs where "v = JObject kvs" by blast
      with p Some Inr show ?thesis
        by (simp add: evaluate_def evaluate_try_def written_error_object convert_error_def
            del: get_opt.simps)
    qed
  qed
next
  assume "regex_exec responseText = Some jsonMatch"
  then show "\<exists>pre mid post. responseText = pre @ jsonMatch @ post
            \<and> jsonMatch = CHR ''{'' # mid \<and> last jsonMatch = CHR ''}''
            \<and> CHR ''{'' \<notin> set pre \<and> CHR ''}'' \<notin> set post"
    by (rule regex_exec_shape)
next
  show "regex_exec responseText = None
        \<longleftrightarrow> CHR ''}'' \<notin> set (dropWhile (\<lambda>c. c \<noteq> CHR ''{'') responseText)"
    by (rule regex_exec_None_iff)
qed

theorem evaluate_parses_greedy_match_witness:
  \<open>filledPrompt_error some_candidate = None
   \<and> regex_exec ''Sure: {"score": "high"} I hope {this} helps''
       = Some ''{"score": "high"} I hope {this}''
   \<and> fst (evaluate HR (Resolves ''Sure: {"score": "high"} I hope {this} helps'') some_candidate)
       = Inr (placeholder ''Unexpected token in JSON'')
   \<and> fst (evaluate HR (Resolves ''Sure: {"score": "high"}'') some_candidate)
       = Inr (JObject [(str ''score'', JString (str ''high''))])
   \<and> fst (evaluate HR (Resolves ''{"score": {"toString": 1}, "recommendation": "YES"}'')
            some_candidate)
       = Inr (placeholder ''Cannot convert object to primitive value'')\<close>
proof -
  have 1: \<open>regex_exec ''Sure: {"score": "high"} I hope {this} helps''
       = Some ''{"score": "high"} I hope {this}''\<close>
    by code_simp
  have 2: \<open>JSON_parse ''{"score": "high"} I hope {this}'' = Inl (SyntaxError ''Unexpected token in JSON'')\<close>
    by code_simp
  have 3: \<open>regex_exec ''Sure: {"score": "high"}'' = Some ''{"score": "high"}''\<close>
    by code_simp
  have 4: \<open>JSON_parse ''{"score": "high"}'' = Inr (JObject [(str ''score'', JString (str ''high''))])\<close>
    by code_simp
  have 5: \<open>regex_exec ''{"score": {"toString": 1}, "recommendation": "YES"}''
             = Some ''{"score": {"toString": 1}, "recommendation": "YES"}''\<close>
    by code_simp
  have 6: \<open>JSON_parse ''{"score": {"toString": 1}, "recommendation": "YES"}''
             = Inr (JObject [(str ''score'', JObject [(str ''toString'', JNum (Fin 1))]),
                             (str ''recommendation'', JString (str ''YES''))])\<close>
    by code_simp
  have 7: "raises (get_opt (JObject [(str ''score'', JObject [(str ''toString'', JNum (Fin 1))]),
                             (str ''recommendation'', JString (str ''YES''))]) ''score'')"
    by code_simp
  have 8: "\<not> raises (get_opt (JObject [(str ''score'', JString (str ''high''))]) ''score'')"
    "\<not> raises (get_opt (JObject [(str ''score'', JString (str ''high''))]) ''recommendation'')"
    by code_simp+
  from 1 2 3 4 5 6 7 8 filledPrompt_error_some_candidate
    evaluate_parses_greedy_match
      [of some_candidate HR \<open>''Sure: {"score": "high"} I hope {this} helps''\<close>
          \<open>''{"score": "high"} I hope {this}''\<close>]
    evaluate_parses_greedy_match
      [of some_candidate HR \<open>''Sure: {"score": "high"}''\<close> \<open>''{"score": "high"}''\<close>]
    evaluate_parses_greedy_match
      [of some_candidate HR \<open>''{"score": {"toString": 1}, "recommendation": "YES"}''\<close>
          \<open>''{"score": {"toString": 1}, "recommendation": "YES"}''\<close>]
  show ?thesis by (simp add: conversion_error_def del: get_opt.simps raises.simps)
qed

section \<open>The fan-in\<close>

lemma three_in_some_order:
  assumes "distinct order" "set order = {0, 1, 2::nat}"
  shows "order \<in> {[0, 1, 2], [0, 2, 1], [1, 0, 2], [1, 2, 0], [2, 0, 1], [2, 1, 0]}"
proof -
  have "length order = card (set order)"
    using assms(1) by (simp add: distinct_card)
  also have "\<dots> = 3" using assms(2) by simp
  finally have len: "length order = 3" .
  obtain x y z where xyz: "order = [x, y, z]"
  proof (cases order)
    case Nil
    with len show ?thesis by simp
  next
    case 1: (Cons x r1)
    show ?thesis
    proof (cases r1)
      case Nil
      with len 1 show ?thesis by simp
    next
      case 2: (Cons y r2)
      show ?thesis
      proof (cases r2)
        case Nil
        with len 1 2 show ?thesis by simp
      next
        case 3: (Cons z r3)
        with len 1 2 have "r3 = []" by simp
        with 1 2 3 that show ?thesis by simp
      qed
    qed
  qed
  have mem: "i = 0 \<or> i = 1 \<or> i = 2" if "i \<in> set order" for i
    using that unfolding assms(2) by simp
  have x: "x = 0 \<or> x = 1 \<or> x = 2" using mem [of x] xyz by simp
  have y: "y = 0 \<or> y = 1 \<or> y = 2" using mem [of y] xyz by simp
  have z: "z = 0 \<or> z = 1 \<or> z = 2" using mem [of z] xyz by simp
  from assms(1) xyz have ne: "x \<noteq> y" "x \<noteq> z" "y \<noteq> z" by simp_all
  from x y z ne show ?thesis unfolding xyz by force
qed

lemma Promise_all_three:
  assumes "distinct order" "set order = {0, 1, 2::nat}"
  shows "Promise_all [Inr h, Inr m, Inr s] order = Fulfilled [h, m, s]"
  using three_in_some_order [OF assms]
  by (auto simp: Promise_all_def)

lemma Promise_all_pending:
  assumes "distinct order" "set order = {0, 1, 2::nat}" "k < 3"
  shows "Promise_all [Inr h, Inr m, Inr s] (take k order) = Pending"
proof -
  from assms(3) have "k = 0 \<or> k = 1 \<or> k = 2" by auto
  with three_in_some_order [OF assms(1,2)] show ?thesis
    by (auto simp: Promise_all_def)
qed

lemma Promise_all_rejects:
  "Promise_all [Inr h, Inl e, Inr s] (1 # order) = Rejected e"
proof -
  have "fold (settle ps) order (slots, Rejected e) = (slots, Rejected e)"
    for ps :: "(js_error + 'a) list" and slots
    by (induction order) simp_all
  then show ?thesis by (simp add: Promise_all_def)
qed

text \<open>A join of branches that are all fulfilled is never rejected, whatever the
  sequence of settlements.\<close>

lemma settle_not_rejected:
  assumes "\<forall>p\<in>set ps. \<exists>v. p = Inr v" "snd st \<noteq> Rejected e"
  shows "snd (settle ps i st) \<noteq> Rejected e"
proof (cases st)
  case (Pair slots out)
  show ?thesis
  proof (cases out)
    case Pending
    show ?thesis
    proof (cases "i < length ps")
      case True
      then have "ps ! i \<in> set ps" by simp
      with assms(1) obtain v where "ps ! i = Inr v" by blast
      with Pair Pending True show ?thesis by (simp add: Let_def)
    next
      case False
      with Pair Pending show ?thesis by simp
    qed
  next
    case (Fulfilled vs)
    with Pair show ?thesis by simp
  next
    case (Rejected e')
    with Pair assms(2) show ?thesis by simp
  qed
qed

lemma Promise_all_not_rejected:
  "Promise_all [Inr h, Inr m, Inr s] os \<noteq> Rejected e"
proof -
  have "snd (fold (settle ps) os st) \<noteq> Rejected e"
    if "\<forall>p\<in>set ps. \<exists>v. p = Inr v" "snd st \<noteq> Rejected e"
    for ps :: "(js_error + 'a) list" and st
    using that
  proof (induction os arbitrary: st)
    case Nil
    then show ?case by simp
  next
    case (Cons i os)
    from settle_not_rejected [OF Cons.prems] Cons.IH [OF Cons.prems(1)]
    show ?case by simp
  qed
  from this [of "[Inr h, Inr m, Inr s]" "(replicate 3 None, Pending)"]
  show ?thesis by (simp add: Promise_all_def numeral_3_eq_3)
qed

lemma evaluate_entry:
  "fst (evaluate a (R a) c) = Inr (entry R c a)"
  using evaluate_fulfilled [of a "R a" c] by (auto simp: entry_def)

lemma evaluateCandidate_join:
  "fst (evaluateCandidate R os c) =
     (case Promise_all [Inr (entry R c HR), Inr (entry R c Manager), Inr (entry R c Sales)] os of
        Fulfilled evals \<Rightarrow>
          Fulfilled (JObject [(str ''hr'', element evals 0),
                              (str ''manager'', element evals 1),
                              (str ''sales'', element evals 2)])
      | Rejected error \<Rightarrow> Rejected error
      | Pending \<Rightarrow> Pending)"
  by (simp add: evaluateCandidate_def Let_def evaluate_entry)

lemma entry_placeholder:
  assumes "invocation_error ''Invalid JSON response format from agent'' (R a) = Some e"
  shows "\<exists>cause. entry R c a = placeholder cause"
  using assms by (auto simp: entry_def evaluate_cases split: option.split)

text \<open>
  Claim C2. Whatever the candidate and whatever the three capabilities do, each branch
  of the fan-out is fulfilled, with a real result or with the placeholder into which
  it has turned its own failure. So in whatever order the three branches complete,
  \<^verbatim>\<open>evaluateCandidate\<close> is still pending after none, one or two of them, and is fulfilled
  after the third with the three results under \<^verbatim>\<open>hr\<close>, \<^verbatim>\<open>manager\<close> and \<^verbatim>\<open>sales\<close>; and
  whatever the sequence of settlements, it is never rejected.
  (\<open>Promise_all_rejects\<close> shows what the join would do with a branch that rejects.)
\<close>

theorem fan_in_waits_for_all:
  assumes "distinct order" "set order = {0, 1, 2}"
  shows "(\<forall>k<3. fst (evaluateCandidate R (take k order) c) = Pending)
       \<and> fst (evaluateCandidate R order c)
           = Fulfilled (JObject [(str ''hr'', entry R c HR),
                                 (str ''manager'', entry R c Manager),
                                 (str ''sales'', entry R c Sales)])
       \<and> (\<forall>os e. fst (evaluateCandidate R os c) \<noteq> Rejected e)
       \<and> (\<forall>a. fst (evaluate a (R a) c) = Inr (entry R c a))
       \<and> (\<forall>a e. invocation_error ''Invalid JSON response format from agent'' (R a) = Some e
              \<longrightarrow> (\<exists>cause. entry R c a = placeholder cause))"
proof (intro conjI allI impI)
  fix k :: nat
  assume "k < 3"
  with assms show "fst (evaluateCandidate R (take k order) c) = Pending"
    by (simp add: evaluateCandidate_join Promise_all_pending)
next
  from assms show "fst (evaluateCandidate R order c)
           = Fulfilled (JObject [(str ''hr'', entry R c HR),
                                 (str ''manager'', entry R c Manager),
                                 (str ''sales'', entry R c Sales)])"
    by (simp add: evaluateCandidate_join Promise_all_three element_def)
next
  fix os e
  show "fst (evaluateCandidate R os c) \<noteq> Rejected e"
    using Promise_all_not_rejected [of "entry R c HR" "entry R c Manager" "entry R c Sales" os]
    by (auto simp: evaluateCandidate_join split: promise.splits)
next
  fix a
  show "fst (evaluate a (R a) c) = Inr (entry R c a)"
    by (rule evaluate_entry)
next
  fix a e
  assume "invocation_error ''Invalid JSON response format from agent'' (R a) = Some e"
  then show "\<exists>cause. entry R c a = placeholder cause"
    by (rule entry_placeholder [of R a e c])
qed

lemma scenario_C_entries:
  \<open>entry scenario_C some_candidate HR
     = JObject [(str ''score'', JNum (Fin 8)), (str ''analysis'', JObject [])]\<close>
  "entry scenario_C some_candidate Manager = placeholder ''timeout''"
  "entry scenario_C some_candidate Sales = placeholder ''Invalid JSON response format from agent''"
  by code_simp+

theorem fan_in_waits_for_all_witness:
  "distinct [2, 0, 1::nat] \<and> set [2, 0, 1::nat] = {0, 1, 2}
   \<and> fst (evaluateCandidate scenario_C [] some_candidate) = Pending
   \<and> fst (evaluateCandidate scenario_C [2] some_candidate) = Pending
   \<and> fst (evaluateCandidate scenario_C [2, 0] some_candidate) = Pending
   \<and> fst (evaluateCandidate scenario_C [2, 0, 1] some_candidate)
       = Fulfilled
           (JObject
              [(str ''hr'', JObject [(str ''score'', JNum (Fin 8)), (str ''analysis'', JObject [])]),
               (str ''manager'', placeholder ''timeout''),
               (str ''sales'', placeholder ''Invalid JSON response format from agent'')])"
proof -
  have d: "distinct [2, 0, 1::nat]" and s: "set [2, 0, 1::nat] = {0, 1, 2}"
    by auto
  note w = fan_in_waits_for_all [OF d s, of scenario_C some_candidate]
  from w have p: "fst (evaluateCandidate scenario_C (take k [2, 0, 1]) some_candidate) = Pending"
    if "k < 3" for k
    using that by blast
  have "fst (evaluateCandidate scenario_C [] some_candidate) = Pending"
    using p [of 0] by simp
  moreover have "fst (evaluateCandidate scenario_C [2] some_candidate) = Pending"
    using p [of 1] by simp
  moreover have "fst (evaluateCandidate scenario_C [2, 0] some_candidate) = Pending"
    using p [of 2] by (simp add: numeral_2_eq_2)
  moreover have "fst (evaluateCandidate scenario_C [2, 0, 1] some_candidate)
       = Fulfilled
           (JObject
              [(str ''hr'', JObject [(str ''score'', JNum (Fin 8)), (str ''analysis'', JObject [])]),
               (str ''manager'', placeholder ''timeout''),
               (str ''sales'', placeholder ''Invalid JSON response format from agent'')])"
    using w [THEN conjunct2, THEN conjunct1]
    by (simp only: scenario_C_entries)
  ultimately show ?thesis using d s by blast
qed

section \<open>The evaluation set\<close>

text \<open>
  Claim C6. In whatever order the evaluators complete, \<^verbatim>\<open>evaluateCandidate\<close> is fulfilled
  with an object that has exactly the three keys \<^verbatim>\<open>hr\<close>, \<^verbatim>\<open>manager\<close> and \<^verbatim>\<open>sales\<close>, each
  once, holding the results of the three evaluators; the entry of an evaluator whose
  invocation failed is the placeholder, with score 5 and recommendation \<^verbatim>\<open>MAYBE\<close>.
\<close>

theorem evaluation_set_is_complete:
  assumes "distinct order" "set order = {0, 1, 2}"
  shows "fst (evaluateCandidate R order c)
           = Fulfilled (JObject [(str ''hr'', entry R c HR),
                                 (str ''manager'', entry R c Manager),
                                 (str ''sales'', entry R c Sales)])
       \<and> distinct [str ''hr'', str ''manager'', str ''sales'']
       \<and> (\<forall>a. fst (evaluate a (R a) c) = Inr (entry R c a))
       \<and> (\<forall>a e. invocation_error ''Invalid JSON response format from agent'' (R a) = Some e
              \<longrightarrow> (\<exists>cause. entry R c a = placeholder cause
                     \<and> get_opt (entry R c a) ''score'' = JNum (Fin 5)
                     \<and> get_opt (entry R c a) ''recommendation'' = JString (str ''MAYBE'')))"
proof (intro conjI allI impI)
  from assms show "fst (evaluateCandidate R order c)
           = Fulfilled (JObject [(str ''hr'', entry R c HR),
                                 (str ''manager'', entry R c Manager),
                                 (str ''sales'', entry R c Sales)])"
    by (simp add: evaluateCandidate_join Promise_all_three element_def)
next
  show "distinct [str ''hr'', str ''manager'', str ''sales'']"
    by (simp add: str_def)
next
  fix a
  show "fst (evaluate a (R a) c) = Inr (entry R c a)"
    by (rule evaluate_entry)
next
  fix a e
  assume "invocation_error ''Invalid JSON response format from agent'' (R a) = Some e"
  from entry_placeholder [of R a e c, OF this] obtain cause where "entry R c a = placeholder cause"
    by blast
  then show "\<exists>cause. entry R c a = placeholder cause
                     \<and> get_opt (entry R c a) ''score'' = JNum (Fin 5)
                     \<and> get_opt (entry R c a) ''recommendation'' = JString (str ''MAYBE'')"
    by (auto simp: placeholder_fields)
qed

theorem evaluation_set_is_complete_witness:
  "distinct [1, 2, 0::nat] \<and> set [1, 2, 0::nat] = {0, 1, 2}
   \<and> fst (evaluateCandidate scenario_C [1, 2, 0] some_candidate)
       = Fulfilled
           (JObject
              [(str ''hr'', JObject [(str ''score'', JNum (Fin 8)), (str ''analysis'', JObject [])]),
               (str ''manager'', placeholder ''timeout''),
               (str ''sales'', placeholder ''Invalid JSON response format from agent'')])
   \<and> invocation_error ''Invalid JSON response format from agent'' (scenario_C Manager)
       = Some (Error ''timeout'')
   \<and> get_opt (entry scenario_C some_candidate Manager) ''score'' = JNum (Fin 5)
   \<and> get_opt (entry scenario_C some_candidate Manager) ''recommendation'' = JString (str ''MAYBE'')"
proof -
  have d: "distinct [1, 2, 0::nat]" and s: "set [1, 2, 0::nat] = {0, 1, 2}"
    by auto
  have i: "invocation_error ''Invalid JSON response format from agent'' (scenario_C Manager)
       = Some (Error ''timeout'')"
    by (simp add: scenario_C_def invocation_error_def)
  note w = evaluation_set_is_complete [OF d s, of scenario_C some_candidate]
  have "fst (evaluateCandidate scenario_C [1, 2, 0] some_candidate)
       = Fulfilled
           (JObject
              [(str ''hr'', JObject [(str ''score'', JNum (Fin 8)), (str ''analysis'', JObject [])]),
               (str ''manager'', placeholder ''timeout''),
               (str ''sales'', placeholder ''Invalid JSON response format from agent'')])"
    using w [THEN conjunct1] by (simp only: scenario_C_entries)
  moreover from w i have "get_opt (entry scenario_C some_candidate Manager) ''score'' = JNum (Fin 5)"
    "get_opt (entry scenario_C some_candidate Manager) ''recommendation'' = JString (str ''MAYBE'')"
    by blast+
  ultimately show ?thesis using d s i by blast
qed

end
